theory Spec2Isabelle
  imports Complex_Main
begin

section \<open>Run-time values of the dashboard\<close>

text \<open>
  The message handler of the dashboard page works on the result of \<^verbatim>\<open>JSON.parse\<close>,
  which the source types as \<^verbatim>\<open>any\<close>, and stores parts of it in the component state without
  checking them. The state fields are therefore modelled as untyped run-time values.
  Numbers are IEEE-754 doubles: a finite double is given by its exact value, a
  rational, and every arithmetic result is rounded to the nearest double (see the
  subsection on arithmetic). \<open>Infinity True\<close> is the positive infinity. Negative zero is
  identified with zero: the handler divides only by lengths of arrays, and no other
  operation it applies tells the two zeros apart.
\<close>

datatype number = NaN | Infinity bool | Num rat

datatype jsval =
    Undefined
  | Null
  | JBool bool
  | JNum number
  | JStr string
  | JArr "jsval list"
  | JObj "(string \<times> jsval) list"

abbreviation num :: "rat \<Rightarrow> jsval" where
  "num r \<equiv> JNum (Num r)"

datatype exn = SyntaxError | TypeError

text \<open>A computation that may throw: \<open>Inl\<close> is the exception.\<close>

definition bind :: "exn + 'a \<Rightarrow> ('a \<Rightarrow> exn + 'b) \<Rightarrow> exn + 'b" where
  "bind m f = (case m of Inl e \<Rightarrow> Inl e | Inr x \<Rightarrow> f x)"

text \<open>ToBoolean, and the operators \<^verbatim>\<open>||\<close> and \<^verbatim>\<open>??\<close> on values already evaluated.\<close>

fun truthy :: "jsval \<Rightarrow> bool" where
  "truthy Undefined = False"
| "truthy Null = False"
| "truthy (JBool b) = b"
| "truthy (JNum NaN) = False"
| "truthy (JNum (Infinity s)) = True"
| "truthy (JNum (Num r)) = (r \<noteq> 0)"
| "truthy (JStr s) = (s \<noteq> [])"
| "truthy (JArr xs) = True"
| "truthy (JObj kvs) = True"

definition or_else :: "jsval \<Rightarrow> jsval \<Rightarrow> jsval" where
  "or_else a b = (if truthy a then a else b)"

definition nullish :: "jsval \<Rightarrow> jsval \<Rightarrow> jsval" where
  "nullish a b = (if a = Undefined \<or> a = Null then b else a)"

fun is_number :: "jsval \<Rightarrow> bool" where
  "is_number (JNum n) = True"
| "is_number v = False"

fun is_object :: "jsval \<Rightarrow> bool" where
  "is_object Null = True"
| "is_object (JArr xs) = True"
| "is_object (JObj kvs) = True"
| "is_object v = False"

text \<open>The value of a key of a parsed object, \<^verbatim>\<open>undefined\<close> when the key is missing.
  An object is the list of its keys with their values, each key once.\<close>

definition lookup :: "(string \<times> jsval) list \<Rightarrow> string \<Rightarrow> jsval" where
  "lookup kvs k = (case map_of kvs k of Some v \<Rightarrow> v | None \<Rightarrow> Undefined)"

text \<open>
  Property access \<^verbatim>\<open>v.name\<close> for the names the handler reads. Reading a property of
  \<^verbatim>\<open>undefined\<close> or \<^verbatim>\<open>null\<close> throws; a primitive has none of these names; an array
  and a string have \<^verbatim>\<open>length\<close>. None of the names read by the source is inherited from
  a prototype of a plain object.
\<close>

fun member :: "jsval \<Rightarrow> string \<Rightarrow> exn + jsval" where
  "member Undefined k = Inl TypeError"
| "member Null k = Inl TypeError"
| "member (JObj kvs) k = Inr (lookup kvs k)"
| "member (JArr xs) k = Inr (if k = ''length'' then num (of_nat (length xs)) else Undefined)"
| "member (JStr s) k = Inr (if k = ''length'' then num (of_nat (length s)) else Undefined)"
| "member v k = Inr Undefined"

text \<open>Indexed access \<^verbatim>\<open>v[i]\<close> for \<open>i\<close> among 0, 1, 2.\<close>

definition index_key :: "nat \<Rightarrow> string" where
  "index_key i = (if i = 0 then ''0'' else if i = 1 then ''1'' else ''2'')"

fun at_index :: "jsval \<Rightarrow> nat \<Rightarrow> exn + jsval" where
  "at_index Undefined i = Inl TypeError"
| "at_index Null i = Inl TypeError"
| "at_index (JArr xs) i = Inr (if i < length xs then xs ! i else Undefined)"
| "at_index (JStr s) i = Inr (if i < length s then JStr [s ! i] else Undefined)"
| "at_index (JObj kvs) i = Inr (lookup kvs (index_key i))"
| "at_index v i = Inr Undefined"

subsection \<open>Arithmetic\<close>

text \<open>
  ToNumber on \<^verbatim>\<open>undefined\<close>, \<^verbatim>\<open>null\<close>, booleans and numbers. The conversion of
  strings, arrays and objects (which goes through their string form) is not modelled:
  for such operands the operators below ask the run-time parameter, so that every
  theorem holds whatever the platform does there.
\<close>

fun prim_number :: "jsval \<Rightarrow> number option" where
  "prim_number Undefined = Some NaN"
| "prim_number Null = Some (Num 0)"
| "prim_number (JBool b) = Some (Num (if b then 1 else 0))"
| "prim_number (JNum n) = Some n"
| "prim_number v = None"

text \<open>
  Rounding a rational to the nearest double, ties to the even significand (the
  rounding of every arithmetic operation of the language). \<open>ilog2 n\<close> is the position
  of the leading bit of \<open>n\<close>. For a ratio \<open>a / b\<close> of positive integers, \<open>round_ratio\<close>
  finds the exponent \<open>e\<close> with \<open>2 ^ e \<le> a / b < 2 ^ (e + 1)\<close>, takes the unit in the
  last place \<open>2 ^ q\<close> with \<open>q = e - 52\<close> (and \<open>q = - 1074\<close> for subnormal results) and
  rounds \<open>a / b\<close> to a multiple \<open>m * 2 ^ q\<close>. A result of magnitude \<open>2 ^ 1024\<close> or more
  is an infinity.
\<close>

function ilog2 :: "int \<Rightarrow> int" where
  "ilog2 n = (if n < 2 then 0 else 1 + ilog2 (n div 2))"
  by pat_completeness auto
termination
  by (relation "measure nat") auto

declare ilog2.simps [simp del]

definition pow2 :: "int \<Rightarrow> rat" where
  "pow2 e = (if 0 \<le> e then 2 ^ nat e else 1 / 2 ^ nat (- e))"

definition round_ratio :: "int \<Rightarrow> int \<Rightarrow> int \<times> int" where
  "round_ratio a b =
     (let e0 = ilog2 a - ilog2 b;
          e = (if (if 0 \<le> e0 then b * 2 ^ nat e0 \<le> a else b \<le> a * 2 ^ nat (- e0))
               then e0 else e0 - 1);
          q = max (e - 52) (- 1074);
          n = (if 0 \<le> q then a else a * 2 ^ nat (- q));
          d = (if 0 \<le> q then b * 2 ^ nat q else b);
          m = n div d;
          r = n mod d;
          m' = (if 2 * r < d then m else if d < 2 * r then m + 1
                else if even m then m else m + 1)
      in (m', q))"

definition double_round :: "rat \<Rightarrow> number" where
  "double_round x =
     (if x = 0 then Num 0
      else let (a, b) = quotient_of \<bar>x\<bar>;
               (m, q) = round_ratio a b
           in if 971 < q \<or> q = 971 \<and> 9007199254740992 \<le> m then Infinity (0 < x)
              else Num (sgn x * of_int m * pow2 q))"

text \<open>The number a decimal literal denotes.\<close>

abbreviation double :: "rat \<Rightarrow> jsval" where
  "double r \<equiv> JNum (double_round r)"

text \<open>Addition, division and comparison of numbers. The zero divisor is the positive
  zero (the source divides by lengths only).\<close>

fun num_add :: "number \<Rightarrow> number \<Rightarrow> number" where
  "num_add (Num a) (Num b) = double_round (a + b)"
| "num_add (Infinity s) (Num b) = Infinity s"
| "num_add (Num a) (Infinity s) = Infinity s"
| "num_add (Infinity s) (Infinity s') = (if s = s' then Infinity s else NaN)"
| "num_add x y = NaN"

fun num_div :: "number \<Rightarrow> number \<Rightarrow> number" where
  "num_div (Num a) (Num b) =
     (if b = 0 then (if a = 0 then NaN else Infinity (0 < a)) else double_round (a / b))"
| "num_div (Infinity s) (Num b) = Infinity (if 0 \<le> b then s else \<not> s)"
| "num_div (Num a) (Infinity s) = Num 0"
| "num_div x y = NaN"

fun num_gt :: "number \<Rightarrow> number \<Rightarrow> bool" where
  "num_gt (Num a) (Num b) = (a > b)"
| "num_gt (Infinity s) (Num b) = s"
| "num_gt (Num a) (Infinity s) = (\<not> s)"
| "num_gt (Infinity s) (Infinity s') = (s \<and> \<not> s')"
| "num_gt x y = False"

text \<open>\<^verbatim>\<open>Math.round\<close>: the nearest integer, halves upwards; the result is a double
  whenever the argument is.\<close>

fun Math_round :: "number \<Rightarrow> number" where
  "Math_round (Num a) = Num (of_int \<lfloor>a + 1 / 2\<rfloor>)"
| "Math_round (Infinity s) = Infinity s"
| "Math_round NaN = NaN"

text \<open>
  The run-time environment of the page: the platform functions the handler calls and
  the configured telemetry topic.
\<close>

record runtime =
  JSON_parse :: "string \<Rightarrow> exn + jsval"
  coerce_add :: "jsval \<Rightarrow> jsval \<Rightarrow> exn + jsval"
  coerce_div :: "jsval \<Rightarrow> jsval \<Rightarrow> exn + jsval"
  coerce_gt :: "jsval \<Rightarrow> jsval \<Rightarrow> exn + bool"
  coerce_string :: "jsval \<Rightarrow> exn option"
  TOPIC_TELEMETRY :: string

definition js_add :: "runtime \<Rightarrow> jsval \<Rightarrow> jsval \<Rightarrow> exn + jsval" where
  "js_add R a b =
     (case (prim_number a, prim_number b) of
        (Some x, Some y) \<Rightarrow> Inr (JNum (num_add x y))
      | _ \<Rightarrow> coerce_add R a b)"

definition js_div :: "runtime \<Rightarrow> jsval \<Rightarrow> jsval \<Rightarrow> exn + jsval" where
  "js_div R a b =
     (case (prim_number a, prim_number b) of
        (Some x, Some y) \<Rightarrow> Inr (JNum (num_div x y))
      | _ \<Rightarrow> coerce_div R a b)"

definition js_gt :: "runtime \<Rightarrow> jsval \<Rightarrow> jsval \<Rightarrow> exn + bool" where
  "js_gt R a b =
     (case (prim_number a, prim_number b) of
        (Some x, Some y) \<Rightarrow> Inr (num_gt x y)
      | _ \<Rightarrow> coerce_gt R a b)"

text \<open>Whether converting a value to text inside a template literal throws: never for a
  primitive; for an array or an object the platform decides.\<close>

fun to_string_throws :: "runtime \<Rightarrow> jsval \<Rightarrow> exn option" where
  "to_string_throws R (JArr xs) = coerce_string R (JArr xs)"
| "to_string_throws R (JObj kvs) = coerce_string R (JObj kvs)"
| "to_string_throws R v = None"

text \<open>\<^verbatim>\<open>xs.reduce((a, b) => a + b, 0)\<close> and \<^verbatim>\<open>xs.filter(temp => temp > -100)\<close> on the
  elements of an array.\<close>

fun reduce_add :: "runtime \<Rightarrow> jsval list \<Rightarrow> jsval \<Rightarrow> exn + jsval" where
  "reduce_add R [] acc = Inr acc"
| "reduce_add R (x # xs) acc = bind (js_add R acc x) (reduce_add R xs)"

fun filter_valid :: "runtime \<Rightarrow> jsval list \<Rightarrow> exn + jsval list" where
  "filter_valid R [] = Inr []"
| "filter_valid R (x # xs) =
     bind (js_gt R x (num (- 100))) (\<lambda>keep.
     bind (filter_valid R xs) (\<lambda>rest.
     Inr (if keep then x # rest else rest)))"

definition average :: "runtime \<Rightarrow> jsval list \<Rightarrow> exn + jsval" where
  "average R xs = bind (reduce_add R xs (num 0)) (\<lambda>s. js_div R s (num (of_nat (length xs))))"

section \<open>Strings and patterns\<close>

text \<open>
  Payloads are sequences of 8-bit code units. The regular expressions of the source
  are all of one shape: literal text, repeated character classes and captured
  repetitions, where each repeated class is disjoint from the first character of what
  follows it (or what follows can match the empty string). For such patterns the
  greedy left-to-right matcher below finds exactly the match of a backtracking
  matcher.
\<close>

fun startsWith :: "string \<Rightarrow> string \<Rightarrow> bool" where
  "startsWith s [] = True"
| "startsWith [] (c # p) = False"
| "startsWith (x # s) (c # p) = (x = c \<and> startsWith s p)"

fun includes_str :: "string \<Rightarrow> string \<Rightarrow> bool" where
  "includes_str [] t = (t = [])"
| "includes_str (c # s) t = (startsWith (c # s) t \<or> includes_str s t)"

text \<open>\<^verbatim>\<open>s.replace(t, '')\<close> with a non-empty string \<open>t\<close>: the first occurrence is removed.\<close>

fun remove_first :: "string \<Rightarrow> string \<Rightarrow> string" where
  "remove_first [] t = []"
| "remove_first (c # s) t =
     (if startsWith (c # s) t then drop (length t) (c # s) else c # remove_first s t)"

datatype cclass = Digit | DigitDot | Word | Space

definition is_digit :: "char \<Rightarrow> bool" where
  "is_digit c = (c \<in> set ''0123456789'')"

definition is_word :: "char \<Rightarrow> bool" where
  "is_word c = (c \<in> set ''abcdefghijklmnopqrstuvwxyzABCDEFGHIJKLMNOPQRSTUVWXYZ0123456789_'')"

definition is_space :: "char \<Rightarrow> bool" where
  "is_space c = (c \<in> set [CHR 0x09, CHR 0x0A, CHR 0x0B, CHR 0x0C, CHR 0x0D, CHR 0x20, CHR 0xA0])"

fun in_class :: "cclass \<Rightarrow> char \<Rightarrow> bool" where
  "in_class Digit c = is_digit c"
| "in_class DigitDot c = (is_digit c \<or> c = CHR ''.'')"
| "in_class Word c = is_word c"
| "in_class Space c = is_space c"

datatype pitem =
    L string         \<comment> \<open>literal text\<close>
  | Star cclass      \<comment> \<open>\<^verbatim>\<open>c*\<close>\<close>
  | Plus cclass      \<comment> \<open>\<^verbatim>\<open>c+\<close>\<close>
  | Cap cclass       \<comment> \<open>\<^verbatim>\<open>(c+)\<close>, captured\<close>
  | CapDecimal       \<comment> \<open>\<^verbatim>\<open>(\d+\.?\d*)\<close>, captured\<close>
  | End              \<comment> \<open>\<^verbatim>\<open>$\<close>\<close>

definition decimal_prefix :: "string \<Rightarrow> string" where
  "decimal_prefix s =
     (let d = takeWhile is_digit s; r = dropWhile is_digit s in
      if startsWith r ''.'' then d @ ''.'' @ takeWhile is_digit (tl r) else d)"

text \<open>Matching a pattern at the start of a string; the result is the list of captures.\<close>

fun match_at :: "pitem list \<Rightarrow> string \<Rightarrow> string list option" where
  "match_at [] s = Some []"
| "match_at (L t # ps) s = (if startsWith s t then match_at ps (drop (length t) s) else None)"
| "match_at (Star c # ps) s = match_at ps (dropWhile (in_class c) s)"
| "match_at (Plus c # ps) s =
     (if takeWhile (in_class c) s = [] then None else match_at ps (dropWhile (in_class c) s))"
| "match_at (Cap c # ps) s =
     (if takeWhile (in_class c) s = [] then None
      else map_option ((#) (takeWhile (in_class c) s)) (match_at ps (dropWhile (in_class c) s)))"
| "match_at (CapDecimal # ps) s =
     (if takeWhile is_digit s = [] then None
      else map_option ((#) (decimal_prefix s)) (match_at ps (drop (length (decimal_prefix s)) s)))"
| "match_at (End # ps) s = (if s = [] then match_at ps s else None)"

text \<open>\<^verbatim>\<open>s.match(/pattern/)\<close>: the leftmost position at which the pattern matches.\<close>

fun js_match :: "pitem list \<Rightarrow> string \<Rightarrow> string list option" where
  "js_match ps [] = match_at ps []"
| "js_match ps (c # s) =
     (case match_at ps (c # s) of Some caps \<Rightarrow> Some caps | None \<Rightarrow> js_match ps s)"

text \<open>\<^verbatim>\<open>s.match(/key(\d+)/)?.[1]\<close> and \<^verbatim>\<open>s.match(/key(\w+)/)?.[1]\<close>.\<close>

definition capture1 :: "pitem list \<Rightarrow> string \<Rightarrow> string option" where
  "capture1 ps s = (case js_match ps s of Some (c # cs) \<Rightarrow> Some c | _ \<Rightarrow> None)"

definition digits_after :: "string \<Rightarrow> string \<Rightarrow> string option" where
  "digits_after key s = capture1 [L key, Cap Digit] s"

definition word_after :: "string \<Rightarrow> string \<Rightarrow> string option" where
  "word_after key s = capture1 [L key, Cap Word] s"

text \<open>
  \<^verbatim>\<open>parseInt\<close> and \<^verbatim>\<open>parseFloat\<close>. The source applies them to captures made of digits
  (and dots) only, so signs, leading blanks, radix prefixes and exponents never occur.
  The result is the double nearest to the decimal value of the text.
\<close>

definition digit_val :: "char \<Rightarrow> nat" where
  "digit_val c = of_char c - 48"

definition dec_value :: "string \<Rightarrow> nat" where
  "dec_value s = foldl (\<lambda>a c. 10 * a + digit_val c) 0 s"

definition parseInt :: "string \<Rightarrow> number" where
  "parseInt s =
     (let d = takeWhile is_digit s
      in if d = [] then NaN else double_round (of_nat (dec_value d)))"

definition parseFloat :: "string \<Rightarrow> number" where
  "parseFloat s =
     (let d = takeWhile is_digit s; r = dropWhile is_digit s;
          f = (if startsWith r ''.'' then takeWhile is_digit (tl r) else [])
      in if d = [] \<and> f = [] then NaN
         else double_round (of_nat (dec_value d) + of_nat (dec_value f) / 10 ^ length f))"

text \<open>\<^verbatim>\<open>toUpperCase\<close> on ASCII text, which is all the page passes as a command name;
  code units outside ASCII are left as they are.\<close>

definition upper_char :: "char \<Rightarrow> char" where
  "upper_char c =
     (case map_of (zip ''abcdefghijklmnopqrstuvwxyz'' ''ABCDEFGHIJKLMNOPQRSTUVWXYZ'') c of
        Some u \<Rightarrow> u | None \<Rightarrow> c)"

definition toUpperCase :: "string \<Rightarrow> string" where
  "toUpperCase s = map upper_char s"

section \<open>The dashboard state\<close>

text \<open>
  The state of the page component \<^verbatim>\<open>IrrigationControl\<close>: the values held by its
  \<^verbatim>\<open>useState\<close> hooks. A state update that builds an object without the optional series
  leaves them \<^verbatim>\<open>undefined\<close>. Updates are applied in the order in which the handler
  issues them, and the handler reads \<^verbatim>\<open>dataSource\<close> as of its call.
\<close>

record Sensors =
  pressure :: jsval
  soilTemp :: jsval
  soilHumidity :: jsval
  waterLevel :: jsval
  airTemp :: jsval
  airHumidity :: jsval
  ds_t :: jsval
  soil :: jsval
  water :: jsval

record Pumps =
  irrigation :: jsval
  suction :: jsval

record Valves =
  valve1 :: jsval
  valve2 :: jsval
  valve3 :: jsval

text \<open>The entries of the log, by the call of \<^verbatim>\<open>addLog\<close> that writes them (the wording of
  the messages is not modelled).\<close>

datatype log =
    SystemInitialized
  | Received string string
  | IrrigationPump string
  | SuctionPump string
  | TestMessage string
  | Stm32Json
  | LegacyJson
  | SimpleJson
  | Stm32Simple
  | Stm32Ultra
  | Stm32Bme280
  | Stm32Comprehensive
  | Stm32Compact
  | Stm32Status string string
  | UnknownDataFormat string
  | FailedToParse exn
  | RawPayload string
  | UnhandledTopic string string
  | ControlPump string
  | NotSavedToDb
  | LoggedToDb
  | ClientNotInitialized
  | NotConnected bool
  | PublishFailed
  | AllPumpsStopped
  | UsingServerlessApi
  | RelayMessage
  | ControlFailed
  | ApiError

record dashboard =
  sensors :: Sensors
  pumps :: Pumps
  valves :: Valves
  dataSource :: string
  logs :: "log list"

definition initial :: dashboard where
  "initial =
     \<lparr>sensors = \<lparr>pressure = num 825, soilTemp = num 25, soilHumidity = num 70,
                  waterLevel = num 10, airTemp = num 27, airHumidity = num 65,
                  ds_t = Undefined, soil = Undefined, water = Undefined\<rparr>,
      pumps = \<lparr>irrigation = JBool False, suction = JBool False\<rparr>,
      valves = \<lparr>valve1 = JBool False, valve2 = JBool False, valve3 = JBool False\<rparr>,
      dataSource = ''unknown'',
      logs = [SystemInitialized]\<rparr>"

definition addLog :: "log \<Rightarrow> dashboard \<Rightarrow> dashboard" where
  "addLog message d = d\<lparr>logs := take 10 (message # logs d)\<rparr>"

section \<open>The structured payloads\<close>

text \<open>
  A branch of the handler yields the state after the updates it has issued, and the
  exception that interrupted it, if any: an update issued before a throw stays issued.
\<close>

type_synonym result = "dashboard \<times> exn option"

text \<open>\<^verbatim>\<open>v.length > 0 ? v.reduce((a, b) => a + b, 0) / v.length : dflt\<close>, where \<open>v\<close> is
  not \<^verbatim>\<open>undefined\<close> or \<^verbatim>\<open>null\<close>; only an array has \<^verbatim>\<open>reduce\<close>.\<close>

definition series_mean :: "runtime \<Rightarrow> jsval \<Rightarrow> jsval \<Rightarrow> exn + jsval" where
  "series_mean R v dflt =
     bind (member v ''length'') (\<lambda>len.
     bind (js_gt R len (num 0)) (\<lambda>nonempty.
     if nonempty then (case v of JArr xs \<Rightarrow> average R xs | _ \<Rightarrow> Inl TypeError)
     else Inr dflt))"

text \<open>\<^verbatim>\<open>soilTemps.filter((temp) => temp > -100)\<close>; only an array has \<^verbatim>\<open>filter\<close>.\<close>

definition validSoilTemps :: "runtime \<Rightarrow> jsval \<Rightarrow> exn + jsval" where
  "validSoilTemps R soilTemps =
     (case soilTemps of
        JArr xs \<Rightarrow> bind (filter_valid R xs) (\<lambda>ys. Inr (JArr ys))
      | _ \<Rightarrow> Inl TypeError)"

text \<open>\<^verbatim>\<open>validSoilTemps.length > 0 ? validSoilTemps.reduce(...) / validSoilTemps.length
  : data.bme.t\<close>\<close>

definition avgSoilTemp :: "runtime \<Rightarrow> jsval \<Rightarrow> jsval \<Rightarrow> exn + jsval" where
  "avgSoilTemp R soilTemps bme_t =
     bind (validSoilTemps R soilTemps) (\<lambda>valid. series_mean R valid bme_t)"

text \<open>The test \<^verbatim>\<open>typeof data === 'object' && data.bme && data.bme.t !== undefined\<close>.\<close>

definition is_stm32_json :: "jsval \<Rightarrow> exn + bool" where
  "is_stm32_json data =
     (if \<not> is_object data then Inr False
      else bind (member data ''bme'') (\<lambda>bme.
           if \<not> truthy bme then Inr False
           else bind (member bme ''t'') (\<lambda>t. Inr (t \<noteq> Undefined))))"

text \<open>The values the nested shape stores: everything the source evaluates before its
  first state update.\<close>

definition stm32_json_values :: "runtime \<Rightarrow> jsval \<Rightarrow> exn + (Sensors \<times> Pumps \<times> Valves)" where
  "stm32_json_values R data =
     bind (member data ''ds18b20'') (\<lambda>ds18b20.
     bind (member data ''soil'') (\<lambda>soil_v.
     bind (member data ''water'') (\<lambda>water_v.
     bind (member data ''valve'') (\<lambda>valve_v.
     bind (member data ''pump'') (\<lambda>pump_v.
     let soilTemps = or_else ds18b20 (JArr []);
         soilMoisture = or_else soil_v (JArr []);
         waterLevels = or_else water_v (JArr []);
         valves = or_else valve_v (JArr [num 0, num 0, num 0]);
         pumps = or_else pump_v (JArr [num 0, num 0])
     in
     bind (member data ''bme'') (\<lambda>bme.
     bind (member bme ''t'') (\<lambda>bme_t.
     bind (avgSoilTemp R soilTemps bme_t) (\<lambda>avg.
     bind (member bme ''p'') (\<lambda>bme_p.
     bind (member bme ''h'') (\<lambda>bme_h.
     bind (series_mean R soilMoisture (num 0)) (\<lambda>avgSoil.
     bind (series_mean R waterLevels (num 0)) (\<lambda>avgWater.
     bind (at_index pumps 0) (\<lambda>pump0.
     bind (at_index pumps 1) (\<lambda>pump1.
     bind (at_index valves 0) (\<lambda>v0.
     bind (at_index valves 1) (\<lambda>v1.
     bind (at_index valves 2) (\<lambda>v2.
     Inr (\<lparr>pressure = bme_p, soilTemp = avg, soilHumidity = avgSoil,
           waterLevel = avgWater, airTemp = bme_t, airHumidity = bme_h,
           ds_t = soilTemps, soil = soilMoisture, water = waterLevels\<rparr>,
          \<lparr>irrigation = JBool (pump0 = num 1), suction = JBool (pump1 = num 1)\<rparr>,
          \<lparr>valve1 = JBool (v0 = num 1), valve2 = JBool (v1 = num 1),
           valve3 = JBool (v2 = num 1)\<rparr>))))))))))))))))))"

text \<open>The message of the nested shape calls \<^verbatim>\<open>data.bme.t.toFixed(1)\<close>, which only a
  number has, and converts \<^verbatim>\<open>data.bme.p\<close>, \<^verbatim>\<open>data.mode\<close> and the two pump entries to
  text.\<close>

definition stm32_json_message :: "runtime \<Rightarrow> jsval \<Rightarrow> exn option" where
  "stm32_json_message R data =
     (case bind (member data ''bme'') (\<lambda>bme.
           bind (member bme ''t'') (\<lambda>bme_t.
           bind (member bme ''p'') (\<lambda>bme_p.
           bind (member data ''mode'') (\<lambda>mode.
           bind (member data ''pump'') (\<lambda>pump_v.
           bind (at_index (or_else pump_v (JArr [num 0, num 0])) 0) (\<lambda>pump0.
           bind (at_index (or_else pump_v (JArr [num 0, num 0])) 1) (\<lambda>pump1.
           if \<not> is_number bme_t then Inl TypeError
           else Inr (filter (\<lambda>r. r \<noteq> None)
                       (map (to_string_throws R) [bme_p, mode, pump0, pump1]))))))))) of
        Inl e \<Rightarrow> Some e
      | Inr [] \<Rightarrow> None
      | Inr (r # rs) \<Rightarrow> r)"

definition stm32_json :: "runtime \<Rightarrow> jsval \<Rightarrow> dashboard \<Rightarrow> result" where
  "stm32_json R data d =
     (case stm32_json_values R data of
        Inl e \<Rightarrow> (d, Some e)
      | Inr (s, p, v) \<Rightarrow>
          (let d' = d\<lparr>sensors := s, pumps := p, valves := v, dataSource := ''stm32-json''\<rparr>
           in case stm32_json_message R data of
                Some e \<Rightarrow> (d', Some e)
              | None \<Rightarrow> (addLog Stm32Json d', None)))"

text \<open>The flat legacy shape: \<^verbatim>\<open>typeof data === 'object' && data.bme_t\<close>.\<close>

definition is_legacy_json :: "jsval \<Rightarrow> exn + bool" where
  "is_legacy_json data =
     (if \<not> is_object data then Inr False
      else bind (member data ''bme_t'') (\<lambda>t. Inr (truthy t)))"

definition legacy_json_values :: "runtime \<Rightarrow> jsval \<Rightarrow> exn + (Sensors \<times> Pumps \<times> Valves)" where
  "legacy_json_values R data =
     bind (member data ''ds_t'') (\<lambda>ds.
     bind (member data ''soil0'') (\<lambda>soil0.
     bind (member data ''soil1'') (\<lambda>soil1.
     bind (member data ''soil2'') (\<lambda>soil2.
     bind (member data ''water1'') (\<lambda>water1.
     bind (member data ''water2'') (\<lambda>water2.
     let soilTemps = or_else ds (JArr []);
         soilMoisture = [soil0, soil1, soil2];
         waterLevels = [water1, water2]
     in
     bind (member data ''bme_p'') (\<lambda>bme_p.
     bind (member data ''bme_t'') (\<lambda>bme_t.
     bind (member data ''bme_h'') (\<lambda>bme_h.
     bind (series_mean R soilTemps (num 0)) (\<lambda>avg.
     bind (average R soilMoisture) (\<lambda>avgSoil.
     bind (average R waterLevels) (\<lambda>avgWater.
     bind (member data ''pump1'') (\<lambda>pump1.
     bind (member data ''pump2'') (\<lambda>pump2.
     bind (member data ''valve1'') (\<lambda>v1.
     bind (member data ''valve2'') (\<lambda>v2.
     bind (member data ''valve3'') (\<lambda>v3.
     Inr (\<lparr>pressure = bme_p, soilTemp = avg, soilHumidity = avgSoil,
           waterLevel = avgWater, airTemp = bme_t, airHumidity = bme_h,
           ds_t = soilTemps, soil = JArr soilMoisture, water = JArr waterLevels\<rparr>,
          \<lparr>irrigation = pump1, suction = pump2\<rparr>,
          \<lparr>valve1 = v1, valve2 = v2, valve3 = v3\<rparr>))))))))))))))))))"

definition legacy_json :: "runtime \<Rightarrow> jsval \<Rightarrow> dashboard \<Rightarrow> result" where
  "legacy_json R data d =
     (case legacy_json_values R data of
        Inl e \<Rightarrow> (d, Some e)
      | Inr (s, p, v) \<Rightarrow>
          (addLog LegacyJson
             (d\<lparr>sensors := s, pumps := p, valves := v, dataSource := ''mqtt-json-legacy''\<rparr>),
           None))"

text \<open>The simple shape: \<^verbatim>\<open>typeof data.pressure === 'number' && typeof data.soilTemp ===
  'number'\<close>; each field is \<^verbatim>\<open>data.x ?? prev.x\<close>.\<close>

definition is_simple_json :: "jsval \<Rightarrow> exn + bool" where
  "is_simple_json data =
     (if \<not> is_object data then Inr False
      else bind (member data ''pressure'') (\<lambda>p.
           if \<not> is_number p then Inr False
           else bind (member data ''soilTemp'') (\<lambda>t. Inr (is_number t))))"

definition simple_json_sensors :: "jsval \<Rightarrow> Sensors \<Rightarrow> exn + Sensors" where
  "simple_json_sensors data prev =
     bind (member data ''pressure'') (\<lambda>p.
     bind (member data ''soilTemp'') (\<lambda>soil_t.
     bind (member data ''soilHumidity'') (\<lambda>sh.
     bind (member data ''waterLevel'') (\<lambda>wl.
     bind (member data ''airTemp'') (\<lambda>air_t.
     bind (member data ''airHumidity'') (\<lambda>ah.
     Inr \<lparr>pressure = nullish p (pressure prev), soilTemp = nullish soil_t (soilTemp prev),
          soilHumidity = nullish sh (soilHumidity prev),
          waterLevel = nullish wl (waterLevel prev),
          airTemp = nullish air_t (airTemp prev), airHumidity = nullish ah (airHumidity prev),
          ds_t = Undefined, soil = Undefined, water = Undefined\<rparr>))))))"

definition simple_json :: "jsval \<Rightarrow> dashboard \<Rightarrow> result" where
  "simple_json data d =
     (case simple_json_sensors data (sensors d) of
        Inl e \<Rightarrow> (d, Some e)
      | Inr s \<Rightarrow> (addLog SimpleJson (d\<lparr>sensors := s, dataSource := ''mqtt-json-simple''\<rparr>), None))"

text \<open>The chain of the three shapes; an object of none of them is passed over in
  silence.\<close>

definition json_payload :: "runtime \<Rightarrow> jsval \<Rightarrow> dashboard \<Rightarrow> result" where
  "json_payload R data d =
     (case is_stm32_json data of
        Inl e \<Rightarrow> (d, Some e)
      | Inr True \<Rightarrow> stm32_json R data d
      | Inr False \<Rightarrow>
          (case is_legacy_json data of
             Inl e \<Rightarrow> (d, Some e)
           | Inr True \<Rightarrow> legacy_json R data d
           | Inr False \<Rightarrow>
               (case is_simple_json data of
                  Inl e \<Rightarrow> (d, Some e)
                | Inr True \<Rightarrow> simple_json data d
                | Inr False \<Rightarrow> (d, None))))"

section \<open>The text payloads\<close>

text \<open>\<^verbatim>\<open>parseInt(x || '0') || prev\<close> for a capture that may be missing, and
  \<^verbatim>\<open>n || prev\<close> for a number.\<close>

definition or_zero :: "string option \<Rightarrow> string" where
  "or_zero c = (case c of Some s \<Rightarrow> s | None \<Rightarrow> ''0'')"

definition int_or_prev :: "string option \<Rightarrow> jsval \<Rightarrow> jsval" where
  "int_or_prev c prev = or_else (JNum (parseInt (or_zero c))) prev"

definition num_or_prev :: "number \<Rightarrow> jsval \<Rightarrow> jsval" where
  "num_or_prev n prev = or_else (JNum n) prev"

text \<open>The captures of a compact format (the local constants of its branch), and the six
  fields the three compact formats write from them.\<close>

record captures =
  c_pressure :: "string option"
  c_soilTemp :: "string option"
  c_soilHumidity :: "string option"
  c_waterLevel :: "string option"
  c_airTemp :: "string option"
  c_airHumidity :: "string option"

definition compact_sensors :: "captures \<Rightarrow> Sensors \<Rightarrow> Sensors" where
  "compact_sensors c prev =
     \<lparr>pressure = int_or_prev (c_pressure c) (pressure prev),
      soilTemp = int_or_prev (c_soilTemp c) (soilTemp prev),
      soilHumidity = int_or_prev (c_soilHumidity c) (soilHumidity prev),
      waterLevel = int_or_prev (c_waterLevel c) (waterLevel prev),
      airTemp = int_or_prev (c_airTemp c) (airTemp prev),
      airHumidity = int_or_prev (c_airHumidity c) (airHumidity prev),
      ds_t = Undefined, soil = Undefined, water = Undefined\<rparr>"

text \<open>\<^verbatim>\<open>STM32_DATA_P701_ST21_SH52_WL12_AT26_AH62_C1\<close>\<close>

definition is_stm32_simple :: "string \<Rightarrow> bool" where
  "is_stm32_simple payloadStr =
     (includes_str payloadStr ''STM32_DATA_''
      \<or> includes_str payloadStr ''P'' \<and> includes_str payloadStr ''_'')"

definition simple_captures :: "string \<Rightarrow> captures" where
  "simple_captures payloadStr =
     (let cleanData = remove_first payloadStr ''STM32_DATA_'' in
      \<lparr>c_pressure = digits_after ''P'' cleanData,
       c_soilTemp = digits_after ''ST'' cleanData,
       c_soilHumidity = digits_after ''SH'' cleanData,
       c_waterLevel = digits_after ''WL'' cleanData,
       c_airTemp = digits_after ''AT'' cleanData,
       c_airHumidity = digits_after ''AH'' cleanData\<rparr>)"

definition stm32_simple :: "string \<Rightarrow> dashboard \<Rightarrow> dashboard" where
  "stm32_simple payloadStr d =
     (let c = simple_captures payloadStr in
      if c_pressure c \<noteq> None \<and> c_soilTemp c \<noteq> None
      then addLog Stm32Simple
             (d\<lparr>sensors := compact_sensors c (sensors d), dataSource := ''stm32-simple''\<rparr>)
      else d)"

text \<open>\<^verbatim>\<open>P701T21H52W12A26H62\<close>\<close>

definition ultra_pattern :: "pitem list" where
  "ultra_pattern =
     [L ''P'', Plus Digit, L ''T'', Plus Digit, L ''H'', Plus Digit,
      L ''W'', Plus Digit, L ''A'', Plus Digit, L ''H'', Plus Digit, End]"

definition is_stm32_ultra :: "string \<Rightarrow> bool" where
  "is_stm32_ultra payloadStr = (match_at ultra_pattern payloadStr \<noteq> None)"

definition ultra_captures :: "string \<Rightarrow> captures" where
  "ultra_captures payloadStr =
     \<lparr>c_pressure = digits_after ''P'' payloadStr,
      c_soilTemp = digits_after ''T'' payloadStr,
      c_soilHumidity = digits_after ''H'' payloadStr,
      c_waterLevel = digits_after ''W'' payloadStr,
      c_airTemp = digits_after ''A'' payloadStr,
      c_airHumidity = capture1 [L ''H'', Cap Digit, End] payloadStr\<rparr>"

definition stm32_ultra :: "string \<Rightarrow> dashboard \<Rightarrow> dashboard" where
  "stm32_ultra payloadStr d =
     (let c = ultra_captures payloadStr in
      if c_pressure c \<noteq> None \<and> c_soilTemp c \<noteq> None
      then addLog Stm32Ultra
             (d\<lparr>sensors := compact_sensors c (sensors d), dataSource := ''stm32-ultra''\<rparr>)
      else d)"

text \<open>\<^verbatim>\<open>BME: 25.1C, 1013hPa, 65% | Soil: 60%, 58%, 62% | Water: 35.5%, 40.2% | Pompa: ON, OFF\<close>\<close>

definition is_stm32_bme280 :: "string \<Rightarrow> bool" where
  "is_stm32_bme280 payloadStr =
     (includes_str payloadStr ''BME:'' \<and> includes_str payloadStr ''Soil:''
      \<and> includes_str payloadStr ''Water:'')"

definition bme_pattern :: "pitem list" where
  "bme_pattern =
     [L ''BME:'', Star Space, Cap DigitDot, L ''C,'', Star Space, Cap DigitDot, L ''hPa,'',
      Star Space, Cap DigitDot, L ''%'']"

definition soil_pattern :: "pitem list" where
  "soil_pattern =
     [L ''Soil:'', Star Space, Cap Digit, L ''%,'', Star Space, Cap Digit, L ''%,'',
      Star Space, Cap Digit, L ''%'']"

definition water_pattern :: "pitem list" where
  "water_pattern =
     [L ''Water:'', Star Space, Cap DigitDot, L ''%,'', Star Space, Cap DigitDot, L ''%'']"

definition pompa_pattern :: "pitem list" where
  "pompa_pattern = [L ''Pompa:'', Star Space, Cap Word, L '','', Star Space, Cap Word]"

definition avgSoilHumidity :: "string list option \<Rightarrow> number" where
  "avgSoilHumidity soilMatch =
     (case soilMatch of
        Some [soil1, soil2, soil3] \<Rightarrow>
          Math_round (num_div (num_add (num_add (parseInt soil1) (parseInt soil2))
                                       (parseInt soil3)) (Num 3))
      | _ \<Rightarrow> Num 0)"

definition avgWaterLevel :: "string list option \<Rightarrow> number" where
  "avgWaterLevel waterMatch =
     (case waterMatch of
        Some [water1, water2] \<Rightarrow>
          Math_round (num_div (num_add (parseFloat water1) (parseFloat water2)) (Num 2))
      | _ \<Rightarrow> Num 0)"

definition stm32_bme280 :: "string \<Rightarrow> dashboard \<Rightarrow> dashboard" where
  "stm32_bme280 payloadStr d =
     (case js_match bme_pattern payloadStr of
        Some [c1, c2, c3] \<Rightarrow>
          (let air = parseFloat c1; pres = parseFloat c2; hum = parseFloat c3;
               prev = sensors d;
               d1 = d\<lparr>sensors :=
                       \<lparr>pressure = num_or_prev pres (pressure prev),
                        soilTemp = num_or_prev air (soilTemp prev),
                        soilHumidity =
                          num_or_prev (avgSoilHumidity (js_match soil_pattern payloadStr))
                            (soilHumidity prev),
                        waterLevel =
                          num_or_prev (avgWaterLevel (js_match water_pattern payloadStr))
                            (waterLevel prev),
                        airTemp = num_or_prev air (airTemp prev),
                        airHumidity = num_or_prev hum (airHumidity prev),
                        ds_t = Undefined, soil = Undefined, water = Undefined\<rparr>\<rparr>;
               d2 = (case js_match pompa_pattern payloadStr of
                       Some [pump1, pump2] \<Rightarrow>
                         d1\<lparr>pumps := \<lparr>irrigation = JBool (pump1 = ''ON''),
                                       suction = JBool (pump2 = ''ON'')\<rparr>\<rparr>
                     | _ \<Rightarrow> d1)
           in addLog Stm32Bme280 (d2\<lparr>dataSource := ''stm32-bme280''\<rparr>))
      | _ \<Rightarrow> d)"

text \<open>\<^verbatim>\<open>st=25,at=27,sh=65,ah=55,p=825,wl=18,c=1\<close>\<close>

definition is_stm32_comprehensive :: "string \<Rightarrow> bool" where
  "is_stm32_comprehensive payloadStr =
     (includes_str payloadStr ''st='' \<and> includes_str payloadStr ''at=''
      \<and> includes_str payloadStr ''p='')"

definition comprehensive_captures :: "string \<Rightarrow> captures" where
  "comprehensive_captures payloadStr =
     \<lparr>c_pressure = digits_after ''p='' payloadStr,
      c_soilTemp = digits_after ''st='' payloadStr,
      c_soilHumidity = digits_after ''sh='' payloadStr,
      c_waterLevel = digits_after ''wl='' payloadStr,
      c_airTemp = digits_after ''at='' payloadStr,
      c_airHumidity = digits_after ''ah='' payloadStr\<rparr>"

definition stm32_comprehensive :: "string \<Rightarrow> dashboard \<Rightarrow> dashboard" where
  "stm32_comprehensive payloadStr d =
     (let c = comprehensive_captures payloadStr in
      if c_soilTemp c \<noteq> None \<and> c_airTemp c \<noteq> None \<and> c_pressure c \<noteq> None
      then addLog Stm32Comprehensive
             (d\<lparr>sensors := compact_sensors c (sensors d),
                dataSource := ''stm32-comprehensive''\<rparr>)
      else d)"

text \<open>\<^verbatim>\<open>temp=25.1,hum=60,count=1\<close>\<close>

definition is_stm32_compact :: "string \<Rightarrow> bool" where
  "is_stm32_compact payloadStr =
     (includes_str payloadStr ''temp='' \<and> includes_str payloadStr ''hum='')"

definition stm32_compact :: "string \<Rightarrow> dashboard \<Rightarrow> dashboard" where
  "stm32_compact payloadStr d =
     (case (capture1 [L ''temp='', CapDecimal] payloadStr, digits_after ''hum='' payloadStr) of
        (Some temp, Some hum) \<Rightarrow>
          (let prev = sensors d in
           addLog Stm32Compact
             (d\<lparr>sensors :=
                  \<lparr>pressure = pressure prev,
                   soilTemp = num_or_prev (Math_round (parseFloat temp)) (soilTemp prev),
                   soilHumidity = num_or_prev (parseInt hum) (soilHumidity prev),
                   waterLevel = waterLevel prev,
                   airTemp = num_or_prev (Math_round (parseFloat temp)) (airTemp prev),
                   airHumidity = num_or_prev (parseInt hum) (airHumidity prev),
                   ds_t = Undefined, soil = Undefined, water = Undefined\<rparr>,
                dataSource := ''stm32-compact''\<rparr>))
      | _ \<Rightarrow> d)"

text \<open>\<^verbatim>\<open>status=online,uptime=145\<close>\<close>

definition is_stm32_status :: "string \<Rightarrow> bool" where
  "is_stm32_status payloadStr =
     (includes_str payloadStr ''status='' \<and> includes_str payloadStr ''uptime='')"

definition stm32_status :: "string \<Rightarrow> dashboard \<Rightarrow> dashboard" where
  "stm32_status payloadStr d =
     (case (word_after ''status='' payloadStr, digits_after ''uptime='' payloadStr) of
        (Some status, Some uptime) \<Rightarrow>
          (let d1 = addLog (Stm32Status status uptime) d in
           if dataSource d \<noteq> ''stm32-comprehensive'' \<and> dataSource d \<noteq> ''stm32-compact''
           then d1\<lparr>dataSource := ''stm32-status''\<rparr>
           else d1)
      | _ \<Rightarrow> d)"

section \<open>The message handler\<close>

text \<open>The pump reports on the topic \<^verbatim>\<open>d02/status\<close>.\<close>

definition pump_status :: "string \<Rightarrow> dashboard \<Rightarrow> dashboard" where
  "pump_status payloadStr d =
     (let d1 = (if includes_str payloadStr ''pump_irrigation=''
                then (case word_after ''pump_irrigation='' payloadStr of
                        Some irrigationState \<Rightarrow>
                          addLog (IrrigationPump irrigationState)
                            (d\<lparr>pumps := (pumps d)\<lparr>irrigation :=
                                  JBool (irrigationState = ''ON'')\<rparr>\<rparr>)
                      | None \<Rightarrow> d)
                else d)
      in if includes_str payloadStr ''pump_suction=''
         then (case word_after ''pump_suction='' payloadStr of
                 Some suctionState \<Rightarrow>
                   addLog (SuctionPump suctionState)
                     (d1\<lparr>pumps := (pumps d1)\<lparr>suction := JBool (suctionState = ''ON'')\<rparr>\<rparr>)
               | None \<Rightarrow> d1)
         else d1)"

text \<open>A message on the topic \<^verbatim>\<open>test\<close>.\<close>

definition test_message :: "string \<Rightarrow> dashboard \<Rightarrow> dashboard" where
  "test_message payloadStr d =
     (let d1 = addLog (TestMessage payloadStr) d in
      if dataSource d = ''unknown'' \<or> dataSource d = ''awaiting-mqtt''
      then d1\<lparr>dataSource := ''mqtt-test''\<rparr>
      else d1)"

text \<open>The chain of formats of a telemetry payload: the body of the \<^verbatim>\<open>try\<close> block after
  the two early returns.\<close>

definition decode_payload :: "runtime \<Rightarrow> string \<Rightarrow> dashboard \<Rightarrow> result" where
  "decode_payload R payloadStr d =
     (if startsWith payloadStr ''{'' then
        (case JSON_parse R payloadStr of
           Inl e \<Rightarrow> (d, Some e)
         | Inr data \<Rightarrow> json_payload R data d)
      else if is_stm32_simple payloadStr then (stm32_simple payloadStr d, None)
      else if is_stm32_ultra payloadStr then (stm32_ultra payloadStr d, None)
      else if is_stm32_bme280 payloadStr then (stm32_bme280 payloadStr d, None)
      else if is_stm32_comprehensive payloadStr then (stm32_comprehensive payloadStr d, None)
      else if is_stm32_compact payloadStr then (stm32_compact payloadStr d, None)
      else if is_stm32_status payloadStr then (stm32_status payloadStr d, None)
      else (addLog (UnknownDataFormat payloadStr) d, None))"

definition try_block :: "runtime \<Rightarrow> string \<Rightarrow> string \<Rightarrow> dashboard \<Rightarrow> result" where
  "try_block R topic payloadStr d =
     (let d1 = addLog (Received topic (take 80 payloadStr)) d in
      if topic = ''d02/status'' then (pump_status payloadStr d1, None)
      else if topic = ''test'' then (test_message payloadStr d1, None)
      else decode_payload R payloadStr d1)"

definition handled_topic :: "runtime \<Rightarrow> string \<Rightarrow> bool" where
  "handled_topic R topic =
     (topic = TOPIC_TELEMETRY R \<or> topic = ''d02/status'' \<or> topic = ''d02/telemetry''
      \<or> topic = ''test'')"

text \<open>
  \<^verbatim>\<open>client.on('message', ...)\<close>: the result is the state once the handler has returned,
  or the exception that leaves it.
\<close>

definition on_message :: "runtime \<Rightarrow> string \<Rightarrow> string \<Rightarrow> dashboard \<Rightarrow> exn + dashboard" where
  "on_message R topic payloadStr d =
     (if handled_topic R topic then
        (case try_block R topic payloadStr d of
           (d', None) \<Rightarrow> Inr d'
         | (d', Some parseError) \<Rightarrow>
             Inr (addLog (RawPayload (take 100 payloadStr)) (addLog (FailedToParse parseError) d')))
      else Inr (addLog (UnhandledTopic topic (take 50 payloadStr)) d))"

section \<open>The command dispatcher\<close>

text \<open>
  \<^verbatim>\<open>controlPump\<close> and \<^verbatim>\<open>publishPumpControl\<close>. What the page cannot decide is given
  by a session: the broker client held in \<^verbatim>\<open>mqttClientRef\<close>, the fate of the audit
  insert, and the answer of the relay \<^verbatim>\<open>/api/pump\<close>. The completion callback of a
  publish only writes to the log and is left out. The function awaits the audit
  insert before it publishes and updates the pumps: the model describes the calls
  whose insert settles (saved, refused, or thrown) and whose relay request, if any,
  is answered.
\<close>

datatype client = Client (connected: bool) (reconnecting: bool) (publish_throws: bool)

datatype db_outcome = DbThrows | DbError | DbSaved

datatype relay_outcome = FetchFails | NotOk | Answer bool

record session =
  mqttClient :: "client option"
  db :: db_outcome
  relay :: relay_outcome

datatype effect =
    DbInsert string string    \<comment> \<open>command and pump type written to \<^verbatim>\<open>pump_commands\<close>\<close>
  | Publish string string     \<comment> \<open>topic and payload\<close>
  | RelayPost string          \<comment> \<open>command posted to \<^verbatim>\<open>/api/pump\<close>\<close>

definition publishPumpControl ::
  "client option \<Rightarrow> string \<Rightarrow> dashboard \<Rightarrow> bool \<times> effect list \<times> dashboard" where
  "publishPumpControl c type d =
     (case c of
        None \<Rightarrow> (False, [], addLog ClientNotInitialized d)
      | Some cl \<Rightarrow>
          if \<not> connected cl then (False, [], addLog (NotConnected (reconnecting cl)) d)
          else if publish_throws cl then (False, [], addLog PublishFailed d)
          else (True, [Publish ''d02/cmd'' (toUpperCase type)], d))"

definition pumpType :: "string \<Rightarrow> string" where
  "pumpType type =
     (if type = ''pompa'' then ''irrigation''
      else if type = ''sedot'' then ''suction'' else ''unknown'')"

definition save_command :: "db_outcome \<Rightarrow> string \<Rightarrow> dashboard \<Rightarrow> effect list \<times> dashboard" where
  "save_command outcome type d =
     (case outcome of
        DbThrows \<Rightarrow> ([], d)
      | DbError \<Rightarrow> ([DbInsert (toUpperCase type) (pumpType type)], addLog NotSavedToDb d)
      | DbSaved \<Rightarrow> ([DbInsert (toUpperCase type) (pumpType type)], addLog LoggedToDb d))"

text \<open>The update of the pump states made right after the publish attempt.\<close>

definition optimistic_update :: "string \<Rightarrow> dashboard \<Rightarrow> dashboard" where
  "optimistic_update type d =
     (if type = ''pompa'' then d\<lparr>pumps := (pumps d)\<lparr>irrigation := JBool True\<rparr>\<rparr>
      else if type = ''sedot'' then d\<lparr>pumps := (pumps d)\<lparr>suction := JBool True\<rparr>\<rparr>
      else if type = ''stop''
      then addLog AllPumpsStopped
             (d\<lparr>pumps := \<lparr>irrigation = JBool False, suction = JBool False\<rparr>\<rparr>)
      else d)"

text \<open>The fallback over the relay, once its answer has arrived.\<close>

definition relay_fallback :: "relay_outcome \<Rightarrow> string \<Rightarrow> dashboard \<Rightarrow> dashboard" where
  "relay_fallback answer type d =
     (let d1 = addLog UsingServerlessApi d in
      case answer of
        FetchFails \<Rightarrow> addLog ApiError d1
      | NotOk \<Rightarrow> addLog ApiError d1
      | Answer success \<Rightarrow>
          if success
          then addLog RelayMessage
                 (d1\<lparr>pumps := (if type = ''pompa''
                                then (pumps d1)\<lparr>irrigation := JBool True\<rparr>
                                else (pumps d1)\<lparr>suction := JBool True\<rparr>)\<rparr>)
          else addLog ControlFailed d1)"

text \<open>The outcome of \<^verbatim>\<open>controlPump\<close>: what it sent, and the state once the function
  has completed.\<close>

record dispatch =
  effects :: "effect list"
  settled :: dashboard

definition controlPump :: "session \<Rightarrow> string \<Rightarrow> dashboard \<Rightarrow> dispatch" where
  "controlPump S type d =
     (let (e1, d1) = save_command (db S) type (addLog (ControlPump type) d);
          (sentViaMqtt, e2, d2) = publishPumpControl (mqttClient S) type d1;
          d3 = optimistic_update type d2
      in if \<not> sentViaMqtt
         then \<lparr>effects = e1 @ e2 @ [RelayPost type],
               settled = relay_fallback (relay S) type d3\<rparr>
         else \<lparr>effects = e1 @ e2, settled = d3\<rparr>)"

text \<open>The command names the buttons of the page pass to \<^verbatim>\<open>controlPump\<close>.\<close>

definition vocabulary :: "string list" where
  "vocabulary = [''pompa'', ''sedot'', ''stop'', ''auto'', ''resume'']"

section \<open>The order of the formats\<close>

datatype format =
    StructuredJson
  | PrefixedPositional
  | UltraShort
  | PipeSummary
  | CommaKeyValue
  | TempHum
  | StatusKeyValue

text \<open>The test and the branch of each format, as the handler has them.\<close>

fun matches :: "format \<Rightarrow> string \<Rightarrow> bool" where
  "matches StructuredJson p = startsWith p ''{''"
| "matches PrefixedPositional p = is_stm32_simple p"
| "matches UltraShort p = is_stm32_ultra p"
| "matches PipeSummary p = is_stm32_bme280 p"
| "matches CommaKeyValue p = is_stm32_comprehensive p"
| "matches TempHum p = is_stm32_compact p"
| "matches StatusKeyValue p = is_stm32_status p"

fun decode_as :: "runtime \<Rightarrow> format \<Rightarrow> string \<Rightarrow> dashboard \<Rightarrow> result" where
  "decode_as R StructuredJson p d =
     (case JSON_parse R p of Inl e \<Rightarrow> (d, Some e) | Inr data \<Rightarrow> json_payload R data d)"
| "decode_as R PrefixedPositional p d = (stm32_simple p d, None)"
| "decode_as R UltraShort p d = (stm32_ultra p d, None)"
| "decode_as R PipeSummary p d = (stm32_bme280 p d, None)"
| "decode_as R CommaKeyValue p d = (stm32_comprehensive p d, None)"
| "decode_as R TempHum p d = (stm32_compact p d, None)"
| "decode_as R StatusKeyValue p d = (stm32_status p d, None)"

text \<open>Decoding by a priority order: the first format of the list whose test holds
  decides, and a payload that passes no test is reported as unknown.\<close>

definition first_match :: "format list \<Rightarrow> string \<Rightarrow> format option" where
  "first_match order p = find (\<lambda>f. matches f p) order"

definition decode_in_order :: "format list \<Rightarrow> runtime \<Rightarrow> string \<Rightarrow> dashboard \<Rightarrow> result" where
  "decode_in_order order R p d =
     (case first_match order p of
        Some f \<Rightarrow> decode_as R f p d
      | None \<Rightarrow> (addLog (UnknownDataFormat p) d, None))"

text \<open>The order of the specification (section 4.1, items 1 to 6), and the order of
  the \<^verbatim>\<open>if\<close> chain of the source.\<close>

definition documented_order :: "format list" where
  "documented_order =
     [StructuredJson, CommaKeyValue, PipeSummary, PrefixedPositional, UltraShort,
      StatusKeyValue]"

definition source_order :: "format list" where
  "source_order =
     [StructuredJson, PrefixedPositional, UltraShort, PipeSummary, CommaKeyValue, TempHum,
      StatusKeyValue]"

section \<open>Auxiliary notions for the statements\<close>

text \<open>A run-time environment for the examples: \<^verbatim>\<open>JSON.parse\<close> is given by a table of
  payloads with their parsed values and rejects every other text.\<close>

definition sample_runtime :: "(string \<times> jsval) list \<Rightarrow> runtime" where
  "sample_runtime table =
     \<lparr>JSON_parse = (\<lambda>s. case map_of table s of Some v \<Rightarrow> Inr v | None \<Rightarrow> Inl SyntaxError),
      coerce_add = (\<lambda>a b. Inl TypeError),
      coerce_div = (\<lambda>a b. Inl TypeError),
      coerce_gt = (\<lambda>a b. Inl TypeError),
      coerce_string = (\<lambda>v. None),
      TOPIC_TELEMETRY = ''d02/telemetry''\<rparr>"

text \<open>A topic whose payloads reach the chain of formats.\<close>

definition telemetry_topic :: "runtime \<Rightarrow> string \<Rightarrow> bool" where
  "telemetry_topic R topic =
     (handled_topic R topic \<and> topic \<noteq> ''d02/status'' \<and> topic \<noteq> ''test'')"

text \<open>The mean of a list of numbers as double arithmetic computes it: the entries are
  added from the left to 0, each sum rounded, and the total is divided by their
  count.\<close>

definition double_mean :: "number list \<Rightarrow> number" where
  "double_mean ns = num_div (foldl num_add (Num 0) ns) (Num (of_nat (length ns)))"

text \<open>A capture that is missing or whose text reads as zero.\<close>

definition zero_or_absent :: "string option \<Rightarrow> bool" where
  "zero_or_absent c = (parseInt (or_zero c) = Num 0)"

text \<open>The payload of the end-to-end scenario and the value \<^verbatim>\<open>JSON.parse\<close> gives for it:
  each decimal literal stands for the double nearest to it, and the whole numbers of
  the payload are doubles as they are.\<close>

definition scenario_payload :: string where
  "scenario_payload = ''{\"ts\":1288664,\"mode\":\"AUTO\",\"bme\":{\"t\":25.02,\"p\":997,\"h\":57.2},\"ds18b20\":[-127.00,0.00,0.00],\"soil\":[100,100,100],\"water\":[0.1,1.8],\"valve\":[0,0,0],\"pump\":[0,0]}''"

definition scenario_object :: "(string \<times> jsval) list" where
  "scenario_object =
     [(''ts'', num 1288664), (''mode'', JStr ''AUTO''),
      (''bme'', JObj [(''t'', double 25.02), (''p'', num 997), (''h'', double 57.2)]),
      (''ds18b20'', JArr [num (- 127), num 0, num 0]),
      (''soil'', JArr [num 100, num 100, num 100]),
      (''water'', JArr [double 0.1, double 1.8]),
      (''valve'', JArr [num 0, num 0, num 0]),
      (''pump'', JArr [num 0, num 0])]"

definition scenario_value :: jsval where
  "scenario_value = JObj scenario_object"

text \<open>Whether a publish over the broker session goes out.\<close>

definition session_publishes :: "session \<Rightarrow> bool" where
  "session_publishes S =
     (case mqttClient S of Some cl \<Rightarrow> connected cl \<and> \<not> publish_throws cl | None \<Rightarrow> False)"

text \<open>A payload that passes the test of the prefixed positional format and the test of
  the comma-delimited format.\<close>

definition ambiguous_payload :: string where
  "ambiguous_payload = ''STM32_DATA_P701_ST21,st=25,at=27,p=825''"

text \<open>The log of the second state holds no report of an unknown data format that the
  log of the first state does not hold.\<close>

fun is_unknown_report :: "log \<Rightarrow> bool" where
  "is_unknown_report (UnknownDataFormat p) = True"
| "is_unknown_report m = False"

definition reports_no_unknown :: "dashboard \<Rightarrow> dashboard \<Rightarrow> bool" where
  "reports_no_unknown d d' =
     list_all (\<lambda>m. is_unknown_report m \<longrightarrow> m \<in> set (logs d)) (logs d')"

text \<open>The payload of an object without keys.\<close>

definition empty_object_payload :: string where
  "empty_object_payload = ''{}''"

text \<open>The six scalar fields, each with the capture the compact formats read it from.\<close>

definition compact_fields :: "((Sensors \<Rightarrow> jsval) \<times> (captures \<Rightarrow> string option)) list" where
  "compact_fields =
     [(pressure, c_pressure), (soilTemp, c_soilTemp), (soilHumidity, c_soilHumidity),
      (waterLevel, c_waterLevel), (airTemp, c_airTemp), (airHumidity, c_airHumidity)]"

text \<open>A comma-delimited payload whose water level reads zero.\<close>

definition zero_level_payload :: string where
  "zero_level_payload = ''st=25,at=27,sh=65,ah=55,p=825,wl=0,c=1''"

text \<open>A payload of the nested shape whose soil and water series are empty.\<close>

definition empty_series_payload :: string where
  "empty_series_payload = ''{\"bme\":{\"t\":25.02,\"p\":997,\"h\":57.2},\"ds18b20\":[],\"soil\":[],\"water\":[]}''"

definition empty_series_value :: jsval where
  "empty_series_value =
     JObj [(''bme'', JObj [(''t'', double 25.02), (''p'', num 997), (''h'', double 57.2)]),
           (''ds18b20'', JArr []), (''soil'', JArr []), (''water'', JArr [])]"

text \<open>A payload of the flat legacy shape that lacks all fields but one.\<close>

definition truncated_legacy_payload :: string where
  "truncated_legacy_payload = ''{\"bme_t\":25}''"

definition truncated_legacy_value :: jsval where
  "truncated_legacy_value = JObj [(''bme_t'', num 25)]"

section \<open>Properties\<close>

subsection \<open>Basic facts\<close>

lemma addLog_fields [simp]:
  "sensors (addLog m d) = sensors d"
  "pumps (addLog m d) = pumps d"
  "valves (addLog m d) = valves d"
  "dataSource (addLog m d) = dataSource d"
  "logs (addLog m d) = take 10 (m # logs d)"
  by (simp_all add: addLog_def)

lemma double_round_zero [simp]: "double_round 0 = Num 0"
  by (simp add: double_round_def)

lemmas js_defs = bind_def lookup_def or_else_def js_add_def js_div_def js_gt_def
  series_mean_def validSoilTemps_def avgSoilTemp_def average_def index_key_def

lemmas match_defs = digits_after_def word_after_def capture1_def is_digit_def is_word_def
  is_space_def

lemmas format_tests = is_stm32_simple_def is_stm32_ultra_def ultra_pattern_def
  is_stm32_bme280_def is_stm32_comprehensive_def is_stm32_compact_def is_stm32_status_def

subsection \<open>Series of numbers\<close>

lemma filter_valid_numbers:
  "filter_valid R (map JNum ns) = Inr (map JNum (filter (\<lambda>n. num_gt n (Num (- 100))) ns))"
  by (induction ns) (simp_all add: bind_def js_gt_def)

lemma reduce_add_numbers:
  "reduce_add R (map JNum ns) (JNum a) = Inr (JNum (foldl num_add a ns))"
  by (induction ns arbitrary: a) (simp_all add: bind_def js_add_def)

lemma average_numbers: "average R (map JNum ns) = Inr (JNum (double_mean ns))"
  using reduce_add_numbers [of R ns "Num 0"]
  by (simp add: average_def bind_def js_div_def double_mean_def)

lemma series_mean_numbers:
  "series_mean R (JArr (map JNum ns)) dflt =
     Inr (if ns = [] then dflt else JNum (double_mean ns))"
  by (simp add: series_mean_def bind_def js_gt_def average_numbers)

lemma avgSoilTemp_numbers:
  "avgSoilTemp R (JArr (map JNum ns)) t =
     Inr (if filter (\<lambda>n. num_gt n (Num (- 100))) ns = [] then t
          else JNum (double_mean (filter (\<lambda>n. num_gt n (Num (- 100))) ns)))"
  by (simp add: avgSoilTemp_def validSoilTemps_def filter_valid_numbers bind_def
      series_mean_numbers)

text \<open>The means of the three series of the scenario, in double arithmetic.\<close>

lemma scenario_soil_mean: "double_mean [Num 100, Num 100, Num 100] = Num 100"
  by code_simp

lemma scenario_water_mean:
  "double_mean [double_round 0.1, double_round 1.8] = double_round 0.9500000000000001"
  by code_simp

lemma scenario_temp_mean: "double_mean [Num 0, Num 0] = Num 0"
  by code_simp

lemma scenario_water_differs: "double_round 0.9500000000000001 \<noteq> double_round 0.95"
  by code_simp

subsection \<open>The nested shape\<close>

lemma member_truthy: "truthy v \<Longrightarrow> \<exists>x. member v k = Inr x"
  by (cases v) auto

lemma at_index_truthy: "truthy v \<Longrightarrow> \<exists>x. at_index v i = Inr x"
  by (cases v) auto

lemma truthy_or_else: "truthy b \<Longrightarrow> truthy (or_else a b)"
  by (simp add: or_else_def)

lemma is_stm32_json_object:
  "is_stm32_json (JObj kvs) = Inr True \<Longrightarrow>
   truthy (lookup kvs ''bme'') \<and> (\<exists>t. member (lookup kvs ''bme'') ''t'' = Inr t)"
  by (auto simp add: is_stm32_json_def bind_def member_truthy split: if_splits)

text \<open>What the nested shape stores when its three series are arrays of numbers.\<close>

lemma stm32_json_values_numbers:
  assumes shape: "is_stm32_json (JObj kvs) = Inr True"
    and t: "member (lookup kvs ''bme'') ''t'' = Inr t"
    and ds: "or_else (lookup kvs ''ds18b20'') (JArr []) = JArr (map JNum ts)"
    and so: "or_else (lookup kvs ''soil'') (JArr []) = JArr (map JNum xs)"
    and wa: "or_else (lookup kvs ''water'') (JArr []) = JArr (map JNum ws)"
  shows "\<exists>s pm v. stm32_json_values R (JObj kvs) = Inr (s, pm, v)
           \<and> airTemp s = t
           \<and> soilTemp s =
               (if filter (\<lambda>n. num_gt n (Num (- 100))) ts = [] then t
                else JNum (double_mean (filter (\<lambda>n. num_gt n (Num (- 100))) ts)))
           \<and> soilHumidity s = (if xs = [] then num 0 else JNum (double_mean xs))
           \<and> waterLevel s = (if ws = [] then num 0 else JNum (double_mean ws))"
proof -
  have b: "truthy (lookup kvs ''bme'')"
    using shape by (simp add: is_stm32_json_object)
  obtain bp where bp: "member (lookup kvs ''bme'') ''p'' = Inr bp"
    using member_truthy [OF b] by blast
  obtain bh where bh: "member (lookup kvs ''bme'') ''h'' = Inr bh"
    using member_truthy [OF b] by blast
  let ?pumps = "or_else (lookup kvs ''pump'') (JArr [num 0, num 0])"
  let ?valves = "or_else (lookup kvs ''valve'') (JArr [num 0, num 0, num 0])"
  have tp: "truthy ?pumps" and tv: "truthy ?valves"
    by (simp_all add: truthy_or_else)
  obtain p0 p1 where p: "at_index ?pumps 0 = Inr p0" "at_index ?pumps 1 = Inr p1"
    using at_index_truthy [OF tp] by blast
  obtain v0 v1 v2 where v: "at_index ?valves 0 = Inr v0" "at_index ?valves 1 = Inr v1"
    "at_index ?valves 2 = Inr v2"
    using at_index_truthy [OF tv] by blast
  show ?thesis
    using t bp bh ds so wa p v
    by (simp add: stm32_json_values_def bind_def Let_def avgSoilTemp_numbers
        series_mean_numbers)
qed

text \<open>The soil temperature stored by a decode of the nested shape that completes.\<close>

lemma stm32_json_values_soilTemp:
  assumes "stm32_json_values R (JObj kvs) = Inr (s, pm, v)"
  shows "member (lookup kvs ''bme'') ''t'' = Inr (airTemp s)
       \<and> avgSoilTemp R (or_else (lookup kvs ''ds18b20'') (JArr [])) (airTemp s)
           = Inr (soilTemp s)"
  using assms
  by (auto simp add: stm32_json_values_def bind_def Let_def split: sum.splits)

text \<open>A message of the nested shape stores the values it has computed, also when the
  text of its log message fails afterwards.\<close>

lemma on_message_stm32_json:
  assumes "telemetry_topic R topic" and "startsWith p ''{''"
    and "JSON_parse R p = Inr data" and "is_stm32_json data = Inr True"
    and "stm32_json_values R data = Inr (s, pm, v)"
  shows "\<exists>d'. on_message R topic p d = Inr d' \<and> sensors d' = s \<and> pumps d' = pm
           \<and> valves d' = v \<and> dataSource d' = ''stm32-json''"
  using assms
  by (simp add: on_message_def telemetry_topic_def try_block_def decode_payload_def
      json_payload_def stm32_json_def Let_def split: option.splits)

subsection \<open>The end-to-end scenario\<close>

lemma scenario_values:
  "stm32_json_values R scenario_value =
     Inr (\<lparr>pressure = num 997, soilTemp = num 0, soilHumidity = num 100,
           waterLevel = double 0.9500000000000001, airTemp = double 25.02,
           airHumidity = double 57.2,
           ds_t = JArr [num (- 127), num 0, num 0],
           soil = JArr [num 100, num 100, num 100],
           water = JArr [double 0.1, double 1.8]\<rparr>,
          \<lparr>irrigation = JBool False, suction = JBool False\<rparr>,
          \<lparr>valve1 = JBool False, valve2 = JBool False, valve3 = JBool False\<rparr>)"
  by code_simp

lemma scenario_message: "stm32_json_message R scenario_value = None"
  by code_simp

lemma scenario_shape: "is_stm32_json scenario_value = Inr True"
  by code_simp

lemma scenario_starts: "startsWith scenario_payload ''{''"
  by (simp add: scenario_payload_def)

lemma scenario_on_message:
  assumes "JSON_parse R scenario_payload = Inr scenario_value"
  shows "on_message R ''d02/telemetry'' scenario_payload d =
     Inr (addLog Stm32Json
            ((addLog (Received ''d02/telemetry'' (take 80 scenario_payload)) d)
               \<lparr>sensors :=
                  \<lparr>pressure = num 997, soilTemp = num 0, soilHumidity = num 100,
                   waterLevel = double 0.9500000000000001, airTemp = double 25.02,
                   airHumidity = double 57.2,
                   ds_t = JArr [num (- 127), num 0, num 0],
                   soil = JArr [num 100, num 100, num 100],
                   water = JArr [double 0.1, double 1.8]\<rparr>,
                pumps := \<lparr>irrigation = JBool False, suction = JBool False\<rparr>,
                valves := \<lparr>valve1 = JBool False, valve2 = JBool False,
                           valve3 = JBool False\<rparr>,
                dataSource := ''stm32-json''\<rparr>))"
  using assms
  by (simp add: on_message_def handled_topic_def try_block_def decode_payload_def
      scenario_starts json_payload_def scenario_shape stm32_json_def scenario_values
      scenario_message)

lemma sample_parse_scenario:
  "JSON_parse (sample_runtime [(scenario_payload, scenario_value)]) scenario_payload
     = Inr scenario_value"
  by (simp add: sample_runtime_def)

text \<open>
  C4, as stated: decoding the scenario payload yields the water level 0.95. The handler
  adds and divides in double arithmetic: (0 + 0.1 + 1.8) / 2 is the double
  0.9500000000000001, the neighbour of the double 0.95.
\<close>

theorem scenario_water_level_is_not_095:
  "JSON_parse (sample_runtime [(scenario_payload, scenario_value)]) scenario_payload
     = Inr scenario_value
   \<and> on_message (sample_runtime [(scenario_payload, scenario_value)]) ''d02/telemetry''
        scenario_payload initial =
       Inr (addLog Stm32Json
              ((addLog (Received ''d02/telemetry'' (take 80 scenario_payload)) initial)
                 \<lparr>sensors :=
                    \<lparr>pressure = num 997, soilTemp = num 0, soilHumidity = num 100,
                     waterLevel = double 0.9500000000000001, airTemp = double 25.02,
                     airHumidity = double 57.2,
                     ds_t = JArr [num (- 127), num 0, num 0],
                     soil = JArr [num 100, num 100, num 100],
                     water = JArr [double 0.1, double 1.8]\<rparr>,
                  pumps := \<lparr>irrigation = JBool False, suction = JBool False\<rparr>,
                  valves := \<lparr>valve1 = JBool False, valve2 = JBool False,
                             valve3 = JBool False\<rparr>,
                  dataSource := ''stm32-json''\<rparr>))
   \<and> double 0.9500000000000001 \<noteq> double 0.95"
  using sample_parse_scenario scenario_on_message [OF sample_parse_scenario, of initial]
    scenario_water_differs
  by (intro conjI) simp_all

text \<open>
  C4, amended: decoding the scenario payload on the telemetry topic gives air
  temperature 25.02, pressure 997, air humidity 57.2, soil temperature 0 (the entry
  -127 is left out and the two remaining entries are averaged), soil humidity 100,
  water level 0.9500000000000001 (the mean of 0.1 and 1.8 as double arithmetic computes
  it), both pumps off, the three valves off and the tag of the nested JSON shape. The
  parsed value of the payload is what \<^verbatim>\<open>JSON.parse\<close> returns for it.
\<close>

theorem scenario_decodes:
  assumes "JSON_parse R scenario_payload = Inr scenario_value"
  shows "\<exists>d'. on_message R ''d02/telemetry'' scenario_payload d = Inr d'
           \<and> airTemp (sensors d') = double 25.02
           \<and> pressure (sensors d') = num 997
           \<and> airHumidity (sensors d') = double 57.2
           \<and> soilTemp (sensors d') = num 0
           \<and> soilHumidity (sensors d') = num 100
           \<and> waterLevel (sensors d') = double 0.9500000000000001
           \<and> pumps d' = \<lparr>irrigation = JBool False, suction = JBool False\<rparr>
           \<and> valves d' = \<lparr>valve1 = JBool False, valve2 = JBool False, valve3 = JBool False\<rparr>
           \<and> dataSource d' = ''stm32-json''"
  using scenario_on_message [OF assms, of d] by simp

theorem scenario_decodes_witness:
  "JSON_parse (sample_runtime [(scenario_payload, scenario_value)]) scenario_payload
     = Inr scenario_value
   \<and> (\<exists>d'. on_message (sample_runtime [(scenario_payload, scenario_value)]) ''d02/telemetry''
              scenario_payload initial = Inr d'
           \<and> soilTemp (sensors d') = num 0
           \<and> waterLevel (sensors d') = double 0.9500000000000001
           \<and> dataSource d' = ''stm32-json'')"
  using sample_parse_scenario scenario_decodes [OF sample_parse_scenario, of initial]
  by auto

subsection \<open>Derived fields of the nested shape\<close>

text \<open>
  C2, as stated: a derived field whose series has no valid entry keeps its previous
  value. In the nested shape the soil humidity and the water level of an empty series
  become 0, and the soil temperature becomes the air temperature of the payload.
\<close>

theorem empty_series_become_zero:
  "JSON_parse (sample_runtime [(empty_series_payload, empty_series_value)])
     empty_series_payload = Inr empty_series_value
   \<and> soilHumidity (sensors initial) = num 70
   \<and> waterLevel (sensors initial) = num 10
   \<and> soilTemp (sensors initial) = num 25
   \<and> on_message (sample_runtime [(empty_series_payload, empty_series_value)])
        ''d02/telemetry'' empty_series_payload initial =
       Inr (addLog Stm32Json
              ((addLog (Received ''d02/telemetry'' (take 80 empty_series_payload)) initial)
                 \<lparr>sensors :=
                    \<lparr>pressure = num 997, soilTemp = double 25.02, soilHumidity = num 0,
                     waterLevel = num 0, airTemp = double 25.02, airHumidity = double 57.2,
                     ds_t = JArr [], soil = JArr [], water = JArr []\<rparr>,
                  pumps := \<lparr>irrigation = JBool False, suction = JBool False\<rparr>,
                  valves := \<lparr>valve1 = JBool False, valve2 = JBool False,
                             valve3 = JBool False\<rparr>,
                  dataSource := ''stm32-json''\<rparr>))"
proof -
  have v: "stm32_json_values R empty_series_value =
     Inr (\<lparr>pressure = num 997, soilTemp = double 25.02, soilHumidity = num 0,
           waterLevel = num 0, airTemp = double 25.02, airHumidity = double 57.2,
           ds_t = JArr [], soil = JArr [], water = JArr []\<rparr>,
          \<lparr>irrigation = JBool False, suction = JBool False\<rparr>,
          \<lparr>valve1 = JBool False, valve2 = JBool False, valve3 = JBool False\<rparr>)" for R
    by (simp add: stm32_json_values_def empty_series_value_def js_defs Let_def)
  have m: "stm32_json_message R empty_series_value = None" for R
    by (simp add: stm32_json_message_def empty_series_value_def js_defs Let_def)
  have sh: "is_stm32_json empty_series_value = Inr True"
    by (simp add: is_stm32_json_def empty_series_value_def js_defs)
  have st: "startsWith empty_series_payload ''{''"
    by (simp add: empty_series_payload_def)
  show ?thesis
    by (simp add: sample_runtime_def initial_def on_message_def handled_topic_def
        try_block_def decode_payload_def st json_payload_def sh stm32_json_def v m)
qed

text \<open>
  C2, amended: for a payload of the nested shape whose three series are arrays of
  numbers (a missing series counts as empty), the soil humidity and the water level
  are the mean of their series as the handler computes it in double arithmetic (the
  entries added from the left to 0, the total divided by their count), and 0 when the
  series is empty; the soil temperature is that mean over the entries above -100, and
  the air temperature of the payload when there is none.
\<close>

theorem series_fields_of_nested_shape:
  assumes "telemetry_topic R topic" and "startsWith p ''{''"
    and "JSON_parse R p = Inr (JObj kvs)"
    and "is_stm32_json (JObj kvs) = Inr True"
    and "member (lookup kvs ''bme'') ''t'' = Inr t"
    and "or_else (lookup kvs ''ds18b20'') (JArr []) = JArr (map JNum ts)"
    and "or_else (lookup kvs ''soil'') (JArr []) = JArr (map JNum xs)"
    and "or_else (lookup kvs ''water'') (JArr []) = JArr (map JNum ws)"
  shows "\<exists>d'. on_message R topic p d = Inr d'
           \<and> soilHumidity (sensors d') = (if xs = [] then num 0 else JNum (double_mean xs))
           \<and> waterLevel (sensors d') = (if ws = [] then num 0 else JNum (double_mean ws))
           \<and> soilTemp (sensors d') =
               (if filter (\<lambda>n. num_gt n (Num (- 100))) ts = [] then t
                else JNum (double_mean (filter (\<lambda>n. num_gt n (Num (- 100))) ts)))"
proof -
  obtain s pm v where v: "stm32_json_values R (JObj kvs) = Inr (s, pm, v)"
    and f: "soilTemp s =
               (if filter (\<lambda>n. num_gt n (Num (- 100))) ts = [] then t
                else JNum (double_mean (filter (\<lambda>n. num_gt n (Num (- 100))) ts)))"
      "soilHumidity s = (if xs = [] then num 0 else JNum (double_mean xs))"
      "waterLevel s = (if ws = [] then num 0 else JNum (double_mean ws))"
    using stm32_json_values_numbers [OF assms(4-8), of R] by blast
  obtain d' where "on_message R topic p d = Inr d'" "sensors d' = s"
    using on_message_stm32_json [OF assms(1-4) v, of d] by blast
  with f show ?thesis by simp
qed

theorem series_fields_of_nested_shape_witness:
  "telemetry_topic (sample_runtime [(scenario_payload, scenario_value)]) ''d02/telemetry''
   \<and> startsWith scenario_payload ''{''
   \<and> JSON_parse (sample_runtime [(scenario_payload, scenario_value)]) scenario_payload
       = Inr (JObj scenario_object)
   \<and> is_stm32_json (JObj scenario_object) = Inr True
   \<and> or_else (lookup scenario_object ''soil'') (JArr [])
       = JArr (map JNum [Num 100, Num 100, Num 100])
   \<and> or_else (lookup scenario_object ''water'') (JArr [])
       = JArr (map JNum [double_round 0.1, double_round 1.8])
   \<and> (\<exists>d'. on_message (sample_runtime [(scenario_payload, scenario_value)])
              ''d02/telemetry'' scenario_payload initial = Inr d'
           \<and> soilHumidity (sensors d') = num 100
           \<and> waterLevel (sensors d') = double 0.9500000000000001
           \<and> soilTemp (sensors d') = num 0)"
proof -
  let ?R = "sample_runtime [(scenario_payload, scenario_value)]"
  have a1: "telemetry_topic ?R ''d02/telemetry''"
    by (simp add: telemetry_topic_def handled_topic_def)
  have a2: "startsWith scenario_payload ''{''"
    by (rule scenario_starts)
  have a3: "JSON_parse ?R scenario_payload = Inr (JObj scenario_object)"
    by (simp add: sample_runtime_def scenario_value_def)
  have a4: "is_stm32_json (JObj scenario_object) = Inr True"
    using scenario_shape by (simp add: scenario_value_def)
  have a5: "member (lookup scenario_object ''bme'') ''t'' = Inr (double 25.02)"
    by (simp add: scenario_object_def lookup_def)
  have a6: "or_else (lookup scenario_object ''ds18b20'') (JArr [])
            = JArr (map JNum [Num (- 127), Num 0, Num 0])"
    by (simp add: scenario_object_def lookup_def or_else_def)
  have a7: "or_else (lookup scenario_object ''soil'') (JArr [])
            = JArr (map JNum [Num 100, Num 100, Num 100])"
    by (simp add: scenario_object_def lookup_def or_else_def)
  have a8: "or_else (lookup scenario_object ''water'') (JArr [])
            = JArr (map JNum [double_round 0.1, double_round 1.8])"
    by (simp add: scenario_object_def lookup_def or_else_def)
  have f: "filter (\<lambda>n. num_gt n (Num (- 100))) [Num (- 127), Num 0, Num 0] = [Num 0, Num 0]"
    by simp
  obtain d' where d': "on_message ?R ''d02/telemetry'' scenario_payload initial = Inr d'"
    and h: "soilHumidity (sensors d') = JNum (double_mean [Num 100, Num 100, Num 100])"
    and w: "waterLevel (sensors d') = JNum (double_mean [double_round 0.1, double_round 1.8])"
    and t: "soilTemp (sensors d') = JNum (double_mean [Num 0, Num 0])"
    using series_fields_of_nested_shape [OF a1 a2 a3 a4 a5 a6 a7 a8, of initial]
    unfolding f by auto
  have "soilHumidity (sensors d') = num 100"
    unfolding h scenario_soil_mean ..
  moreover have "waterLevel (sensors d') = double 0.9500000000000001"
    unfolding w scenario_water_mean ..
  moreover have "soilTemp (sensors d') = num 0"
    unfolding t scenario_temp_mean ..
  ultimately have "\<exists>d'. on_message ?R ''d02/telemetry'' scenario_payload initial = Inr d'
           \<and> soilHumidity (sensors d') = num 100
           \<and> waterLevel (sensors d') = double 0.9500000000000001
           \<and> soilTemp (sensors d') = num 0"
    using d' by blast
  with a1 a2 a3 a4 a7 a8 show ?thesis by blast
qed

text \<open>
  C5: in the nested shape, with a soil-temperature series of numbers, every entry of
  -100 or less is left out of the mean (an entry is kept when it is greater than -100);
  when all entries are left out, the soil temperature is the air temperature of the
  same payload. The first part is the rule as the handler computes it, with the mean
  in double arithmetic; the second says which numbers are kept; the third is what a
  message stores when its decoding completes.
\<close>

theorem faulty_soil_temps_excluded:
  "avgSoilTemp R (JArr (map JNum ns)) t =
     Inr (if filter (\<lambda>n. num_gt n (Num (- 100))) ns = [] then t
          else JNum (double_mean (filter (\<lambda>n. num_gt n (Num (- 100))) ns)))
   \<and> (\<forall>r. num_gt (Num r) (Num (- 100)) = (\<not> r \<le> - 100))
   \<and> (telemetry_topic R topic \<and> startsWith p ''{''
        \<and> JSON_parse R p = Inr (JObj kvs) \<and> is_stm32_json (JObj kvs) = Inr True
        \<and> or_else (lookup kvs ''ds18b20'') (JArr []) = JArr (map JNum ns)
        \<and> stm32_json_values R (JObj kvs) = Inr (s, pm, v)
      \<longrightarrow> (\<exists>d'. on_message R topic p d = Inr d' \<and> sensors d' = s
             \<and> member (lookup kvs ''bme'') ''t'' = Inr (airTemp s)
             \<and> soilTemp s =
                 (if filter (\<lambda>n. num_gt n (Num (- 100))) ns = [] then airTemp s
                  else JNum (double_mean (filter (\<lambda>n. num_gt n (Num (- 100))) ns)))))"
proof (intro conjI impI allI)
  show "avgSoilTemp R (JArr (map JNum ns)) t =
     Inr (if filter (\<lambda>n. num_gt n (Num (- 100))) ns = [] then t
          else JNum (double_mean (filter (\<lambda>n. num_gt n (Num (- 100))) ns)))"
    by (rule avgSoilTemp_numbers)
next
  fix r :: rat
  show "num_gt (Num r) (Num (- 100)) = (\<not> r \<le> - 100)"
    by (simp add: not_le)
next
  assume h: "telemetry_topic R topic \<and> startsWith p ''{''
        \<and> JSON_parse R p = Inr (JObj kvs) \<and> is_stm32_json (JObj kvs) = Inr True
        \<and> or_else (lookup kvs ''ds18b20'') (JArr []) = JArr (map JNum ns)
        \<and> stm32_json_values R (JObj kvs) = Inr (s, pm, v)"
  then have h1: "telemetry_topic R topic" and h2: "startsWith p ''{''"
    and h3: "JSON_parse R p = Inr (JObj kvs)" and h4: "is_stm32_json (JObj kvs) = Inr True"
    and h5: "or_else (lookup kvs ''ds18b20'') (JArr []) = JArr (map JNum ns)"
    and h6: "stm32_json_values R (JObj kvs) = Inr (s, pm, v)"
    by simp_all
  from stm32_json_values_soilTemp [OF h6]
  have a: "member (lookup kvs ''bme'') ''t'' = Inr (airTemp s)"
    and b: "avgSoilTemp R (JArr (map JNum ns)) (airTemp s) = Inr (soilTemp s)"
    by (simp_all add: h5)
  from b avgSoilTemp_numbers [of R ns "airTemp s"]
  have c: "soilTemp s =
             (if filter (\<lambda>n. num_gt n (Num (- 100))) ns = [] then airTemp s
              else JNum (double_mean (filter (\<lambda>n. num_gt n (Num (- 100))) ns)))"
    by simp
  obtain d' where "on_message R topic p d = Inr d'" "sensors d' = s"
    using on_message_stm32_json [OF h1 h2 h3 h4 h6, of d] by blast
  with a c show "\<exists>d'. on_message R topic p d = Inr d' \<and> sensors d' = s
             \<and> member (lookup kvs ''bme'') ''t'' = Inr (airTemp s)
             \<and> soilTemp s =
                 (if filter (\<lambda>n. num_gt n (Num (- 100))) ns = [] then airTemp s
                  else JNum (double_mean (filter (\<lambda>n. num_gt n (Num (- 100))) ns)))"
    by blast
qed

theorem faulty_soil_temps_excluded_witness:
  "telemetry_topic (sample_runtime [(scenario_payload, scenario_value)]) ''d02/telemetry''
   \<and> startsWith scenario_payload ''{''
   \<and> JSON_parse (sample_runtime [(scenario_payload, scenario_value)]) scenario_payload
       = Inr (JObj scenario_object)
   \<and> is_stm32_json (JObj scenario_object) = Inr True
   \<and> or_else (lookup scenario_object ''ds18b20'') (JArr [])
       = JArr (map JNum [Num (- 127), Num 0, Num 0])
   \<and> filter (\<lambda>n. num_gt n (Num (- 100))) [Num (- 127), Num 0, Num 0] = [Num 0, Num 0]
   \<and> (\<exists>d'. on_message (sample_runtime [(scenario_payload, scenario_value)])
              ''d02/telemetry'' scenario_payload initial = Inr d'
           \<and> soilTemp (sensors d') = num 0
           \<and> airTemp (sensors d') = double 25.02)"
proof -
  let ?R = "sample_runtime [(scenario_payload, scenario_value)]"
  let ?s = "\<lparr>pressure = num 997, soilTemp = num 0, soilHumidity = num 100,
           waterLevel = double 0.9500000000000001, airTemp = double 25.02,
           airHumidity = double 57.2,
           ds_t = JArr [num (- 127), num 0, num 0],
           soil = JArr [num 100, num 100, num 100],
           water = JArr [double 0.1, double 1.8]\<rparr>"
  have a1: "telemetry_topic ?R ''d02/telemetry''"
    by (simp add: telemetry_topic_def handled_topic_def)
  have a2: "startsWith scenario_payload ''{''"
    by (rule scenario_starts)
  have a3: "JSON_parse ?R scenario_payload = Inr (JObj scenario_object)"
    by (simp add: sample_runtime_def scenario_value_def)
  have a4: "is_stm32_json (JObj scenario_object) = Inr True"
    using scenario_shape by (simp add: scenario_value_def)
  have a5: "or_else (lookup scenario_object ''ds18b20'') (JArr [])
            = JArr (map JNum [Num (- 127), Num 0, Num 0])"
    by (simp add: scenario_object_def lookup_def or_else_def)
  have a6: "stm32_json_values ?R (JObj scenario_object) =
     Inr (?s, \<lparr>irrigation = JBool False, suction = JBool False\<rparr>,
          \<lparr>valve1 = JBool False, valve2 = JBool False, valve3 = JBool False\<rparr>)"
    using scenario_values [of ?R] by (simp add: scenario_value_def)
  have a7: "filter (\<lambda>n. num_gt n (Num (- 100))) [Num (- 127), Num 0, Num 0] = [Num 0, Num 0]"
    by simp
  from faulty_soil_temps_excluded [of ?R "[Num (- 127), Num 0, Num 0]" "double 25.02"
      "''d02/telemetry''" scenario_payload scenario_object ?s _ _ initial] a1 a2 a3 a4 a5 a6
  have "\<exists>d'. on_message ?R ''d02/telemetry'' scenario_payload initial = Inr d'
          \<and> sensors d' = ?s"
    by blast
  then obtain d' where "on_message ?R ''d02/telemetry'' scenario_payload initial = Inr d'"
    and "sensors d' = ?s"
    by blast
  then have "\<exists>d'. on_message ?R ''d02/telemetry'' scenario_payload initial = Inr d'
          \<and> soilTemp (sensors d') = num 0 \<and> airTemp (sensors d') = double 25.02"
    by simp
  with a1 a2 a3 a4 a5 a7 show ?thesis by blast
qed

subsection \<open>The order of the formats\<close>

lemma decode_payload_source_order:
  "decode_payload R p d = decode_in_order source_order R p d"
  by (simp add: decode_payload_def decode_in_order_def first_match_def source_order_def)

text \<open>
  C1, as stated: the formats are tried in the documented order (JSON, comma-delimited
  key=value, pipe-delimited summary, prefixed positional, ultra-short, status). The
  handler does not follow that order: a payload that passes the tests of both the
  prefixed positional and the comma-delimited format is decoded as the former, where
  the documented order gives the latter.
\<close>

theorem documented_order_counterexample:
  "first_match documented_order ambiguous_payload = Some CommaKeyValue
   \<and> dataSource (fst (decode_in_order documented_order (sample_runtime []) ambiguous_payload
                         initial)) = ''stm32-comprehensive''
   \<and> on_message (sample_runtime []) ''d02/telemetry'' ambiguous_payload initial =
       Inr (addLog Stm32Simple
              ((addLog (Received ''d02/telemetry'' ambiguous_payload) initial)
                 \<lparr>sensors := (sensors initial)\<lparr>pressure := num 701, soilTemp := num 21\<rparr>,
                  dataSource := ''stm32-simple''\<rparr>))"
proof (intro conjI)
  show "first_match documented_order ambiguous_payload = Some CommaKeyValue"
    by (simp add: first_match_def documented_order_def ambiguous_payload_def format_tests)
  show "dataSource (fst (decode_in_order documented_order (sample_runtime [])
          ambiguous_payload initial)) = ''stm32-comprehensive''"
    by (simp add: decode_in_order_def first_match_def documented_order_def
        ambiguous_payload_def format_tests stm32_comprehensive_def comprehensive_captures_def
        match_defs Let_def)
  show "on_message (sample_runtime []) ''d02/telemetry'' ambiguous_payload initial =
       Inr (addLog Stm32Simple
              ((addLog (Received ''d02/telemetry'' ambiguous_payload) initial)
                 \<lparr>sensors := (sensors initial)\<lparr>pressure := num 701, soilTemp := num 21\<rparr>,
                  dataSource := ''stm32-simple''\<rparr>))"
    by code_simp
qed

text \<open>
  C1, amended: on a telemetry topic the handler tries the formats in the order of its
  own chain (JSON, prefixed positional, ultra-short, pipe-delimited summary,
  comma-delimited key=value, temp=/hum=, status), and the first format whose test holds
  decides the result, also when its extraction then declines; the result is a function
  of the payload and the state.
\<close>

theorem first_match_in_source_order:
  "decode_payload R p d = decode_in_order source_order R p d
   \<and> (telemetry_topic R topic \<longrightarrow>
        try_block R topic p d =
          decode_in_order source_order R p (addLog (Received topic (take 80 p)) d))"
  by (simp add: decode_payload_source_order try_block_def telemetry_topic_def)

theorem first_match_in_source_order_witness:
  "telemetry_topic (sample_runtime []) ''d02/telemetry''
   \<and> first_match source_order ambiguous_payload = Some PrefixedPositional
   \<and> try_block (sample_runtime []) ''d02/telemetry'' ambiguous_payload initial =
       decode_as (sample_runtime []) PrefixedPositional ambiguous_payload
         (addLog (Received ''d02/telemetry'' (take 80 ambiguous_payload)) initial)"
proof -
  have t: "telemetry_topic (sample_runtime []) ''d02/telemetry''"
    by (simp add: telemetry_topic_def handled_topic_def)
  have f: "first_match source_order ambiguous_payload = Some PrefixedPositional"
    by (simp add: first_match_def source_order_def ambiguous_payload_def format_tests)
  from first_match_in_source_order [of "sample_runtime []" ambiguous_payload initial
      "''d02/telemetry''"] t f
  show ?thesis
    by (simp add: decode_in_order_def)
qed

subsection \<open>The data-source tag\<close>

text \<open>
  C3: once the tag of the nested JSON shape is set, a status message must not change it.
  The guard of the status branch spares only the tags \<^verbatim>\<open>stm32-comprehensive\<close> and
  \<^verbatim>\<open>stm32-compact\<close>: a status message on the telemetry topic replaces the tag
  \<^verbatim>\<open>stm32-json\<close> by \<^verbatim>\<open>stm32-status\<close>.
\<close>

theorem status_message_overwrites_json_tag:
  "\<exists>d'. on_message R ''d02/telemetry'' ''status=online,uptime=145''
            (d\<lparr>dataSource := ''stm32-json''\<rparr>) = Inr d'
        \<and> dataSource d' = ''stm32-status''"
  by (simp add: on_message_def handled_topic_def try_block_def decode_payload_def
      format_tests stm32_status_def match_defs)

text \<open>A message on the topic \<^verbatim>\<open>test\<close> sets its tag only while no data has arrived.\<close>

lemma test_message_keeps_tag:
  "dataSource d \<noteq> ''unknown'' \<Longrightarrow> dataSource d \<noteq> ''awaiting-mqtt'' \<Longrightarrow>
   on_message R ''test'' p d =
     Inr (addLog (TestMessage p) (addLog (Received ''test'' (take 80 p)) d))"
  by (simp add: on_message_def handled_topic_def try_block_def test_message_def Let_def)

subsection \<open>The command dispatcher\<close>

text \<open>
  C7, as stated: a command name outside the vocabulary is rejected before any network
  attempt. \<^verbatim>\<open>controlPump\<close> has no such check: with a connected session the name
  \<^verbatim>\<open>foo\<close> is written to the audit table and published to the device.
\<close>

theorem unknown_command_forwarded:
  "''foo'' \<notin> set vocabulary
   \<and> effects (controlPump \<lparr>mqttClient = Some (Client True False False), db = DbSaved,
                           relay = FetchFails\<rparr> ''foo'' initial)
     = [DbInsert ''FOO'' ''unknown'', Publish ''d02/cmd'' ''FOO'']"
  by (simp add: vocabulary_def controlPump_def save_command_def publishPumpControl_def
      toUpperCase_def upper_char_def pumpType_def Let_def)

text \<open>
  C7, amended: \<^verbatim>\<open>controlPump\<close> does not validate the command name. Whatever name it
  is given, it publishes the name in upper case on \<^verbatim>\<open>d02/cmd\<close> when the broker session
  is connected and the publish goes out, and posts the name to the relay otherwise;
  only the buttons of the page restrict the names to the vocabulary.
\<close>

theorem controlPump_forwards_any_name:
  "effects (controlPump S type d) =
     fst (save_command (db S) type (addLog (ControlPump type) d))
     @ [if session_publishes S then Publish ''d02/cmd'' (toUpperCase type) else RelayPost type]"
  by (auto simp add: controlPump_def publishPumpControl_def session_publishes_def Let_def
      split: prod.splits option.splits)

text \<open>The update made right after the publish attempt turns both pumps off for the
  stop command.\<close>

lemma stop_update_turns_pumps_off:
  "pumps (optimistic_update ''stop'' d) = \<lparr>irrigation = JBool False, suction = JBool False\<rparr>"
  by (simp add: optimistic_update_def)

text \<open>
  C8: the stop command leaves both pump states false, whether the publish went out,
  failed, or was not attempted. When there is no broker client, the command goes over
  the relay; once the relay reports success, the fallback marks the pump that is not
  the irrigation pump as running, for the stop command too: the call ends with the
  suction pump on.
\<close>

theorem stop_over_relay_ends_with_suction_on:
  "pumps (settled (controlPump \<lparr>mqttClient = None, db = outcome, relay = Answer True\<rparr>
                     ''stop'' d))
     = \<lparr>irrigation = JBool False, suction = JBool True\<rparr>"
  by (cases outcome)
     (simp_all add: controlPump_def save_command_def optimistic_update_def
        publishPumpControl_def relay_fallback_def Let_def)

subsection \<open>Objects of no known shape\<close>

lemma rnu_refl [simp]: "reports_no_unknown d d"
  by (simp add: reports_no_unknown_def list_all_iff)

lemma rnu_update [simp]:
  "reports_no_unknown d0 (sensors_update f d) = reports_no_unknown d0 d"
  "reports_no_unknown d0 (pumps_update g d) = reports_no_unknown d0 d"
  "reports_no_unknown d0 (valves_update h d) = reports_no_unknown d0 d"
  "reports_no_unknown d0 (dataSource_update k d) = reports_no_unknown d0 d"
  by (simp_all add: reports_no_unknown_def)

lemma rnu_addLog:
  assumes "reports_no_unknown d0 d" and "\<not> is_unknown_report m"
  shows "reports_no_unknown d0 (addLog m d)"
proof -
  have "set (take 10 (m # logs d)) \<subseteq> insert m (set (logs d))"
    using set_take_subset [of 10 "m # logs d"] by simp
  with assms show ?thesis
    by (auto simp add: reports_no_unknown_def list_all_iff)
qed

lemma stm32_json_rnu:
  "reports_no_unknown d0 d \<Longrightarrow> reports_no_unknown d0 (fst (stm32_json R data d))"
  by (simp add: stm32_json_def Let_def rnu_addLog split: sum.splits option.splits prod.splits)

lemma legacy_json_rnu:
  "reports_no_unknown d0 d \<Longrightarrow> reports_no_unknown d0 (fst (legacy_json R data d))"
  by (simp add: legacy_json_def rnu_addLog split: sum.splits prod.splits)

lemma simple_json_rnu:
  "reports_no_unknown d0 d \<Longrightarrow> reports_no_unknown d0 (fst (simple_json data d))"
  by (simp add: simple_json_def rnu_addLog split: sum.splits)

lemma json_payload_rnu:
  "reports_no_unknown d0 d \<Longrightarrow> reports_no_unknown d0 (fst (json_payload R data d))"
  by (simp add: json_payload_def stm32_json_rnu legacy_json_rnu simple_json_rnu
      split: sum.splits bool.splits)

lemma pump_status_rnu:
  "reports_no_unknown d0 d \<Longrightarrow> reports_no_unknown d0 (pump_status p d)"
  by (simp add: pump_status_def Let_def rnu_addLog split: option.splits)

lemma test_message_rnu:
  "reports_no_unknown d0 d \<Longrightarrow> reports_no_unknown d0 (test_message p d)"
  by (simp add: test_message_def Let_def rnu_addLog)

lemma on_message_json_rnu:
  assumes "startsWith p ''{''"
  shows "\<exists>d'. on_message R topic p d = Inr d' \<and> reports_no_unknown d d'"
proof -
  have "reports_no_unknown d (fst (try_block R topic p d))"
    using assms
    by (simp add: try_block_def decode_payload_def pump_status_rnu test_message_rnu
        json_payload_rnu rnu_addLog Let_def split: sum.splits)
  then show ?thesis
    by (cases "try_block R topic p d")
       (auto simp add: on_message_def rnu_addLog split: option.splits)
qed

lemma on_message_unmatched_json:
  assumes "telemetry_topic R topic" and "startsWith p ''{''"
    and "JSON_parse R p = Inr (JObj kvs)"
    and "is_stm32_json (JObj kvs) = Inr False"
    and "is_legacy_json (JObj kvs) = Inr False"
    and "is_simple_json (JObj kvs) = Inr False"
  shows "on_message R topic p d = Inr (addLog (Received topic (take 80 p)) d)"
  using assms
  by (simp add: on_message_def telemetry_topic_def try_block_def decode_payload_def
      json_payload_def Let_def)

text \<open>
  C10, as stated: on a handled topic, a payload that starts with a brace, parses as an
  object and has none of the three shapes changes nothing. The topic \<^verbatim>\<open>test\<close> is
  handled, and a message on it sets the tag \<^verbatim>\<open>mqtt-test\<close> when no data has arrived
  yet, whatever its payload.
\<close>

theorem json_on_test_topic_changes_tag:
  "handled_topic (sample_runtime [(empty_object_payload, JObj [])]) ''test''
   \<and> startsWith empty_object_payload ''{''
   \<and> JSON_parse (sample_runtime [(empty_object_payload, JObj [])]) empty_object_payload
       = Inr (JObj [])
   \<and> is_stm32_json (JObj []) = Inr False
   \<and> is_legacy_json (JObj []) = Inr False
   \<and> is_simple_json (JObj []) = Inr False
   \<and> dataSource initial = ''unknown''
   \<and> on_message (sample_runtime [(empty_object_payload, JObj [])]) ''test''
        empty_object_payload initial
       = Inr ((addLog (TestMessage empty_object_payload)
                (addLog (Received ''test'' empty_object_payload) initial))
                \<lparr>dataSource := ''mqtt-test''\<rparr>)"
  by (simp add: handled_topic_def empty_object_payload_def sample_runtime_def
      is_stm32_json_def is_legacy_json_def is_simple_json_def js_defs initial_def
      on_message_def try_block_def test_message_def Let_def)

text \<open>
  C10, amended: on a telemetry topic (a handled topic other than \<^verbatim>\<open>d02/status\<close> and
  \<^verbatim>\<open>test\<close>), a payload that starts with a brace, parses as an object and has none of
  the three shapes leaves sensors, pumps, valves and tag as they were; the only trace
  is the log entry of its arrival. On any topic, no payload that starts with a brace
  is reported as an unknown data format.
\<close>

theorem unmatched_json_changes_nothing:
  assumes "startsWith p ''{''"
  shows "(telemetry_topic R topic
          \<and> JSON_parse R p = Inr (JObj kvs)
          \<and> is_stm32_json (JObj kvs) = Inr False
          \<and> is_legacy_json (JObj kvs) = Inr False
          \<and> is_simple_json (JObj kvs) = Inr False
          \<longrightarrow> on_message R topic p d = Inr (addLog (Received topic (take 80 p)) d))
       \<and> (\<exists>d'. on_message R topic' p d = Inr d' \<and> reports_no_unknown d d')"
  using assms on_message_json_rnu [OF assms, of R topic' d]
    on_message_unmatched_json [of R topic p kvs d]
  by blast

theorem unmatched_json_changes_nothing_witness:
  "startsWith empty_object_payload ''{''
   \<and> telemetry_topic (sample_runtime [(empty_object_payload, JObj [])]) ''d02/telemetry''
   \<and> JSON_parse (sample_runtime [(empty_object_payload, JObj [])]) empty_object_payload
       = Inr (JObj [])
   \<and> on_message (sample_runtime [(empty_object_payload, JObj [])]) ''d02/telemetry''
        empty_object_payload initial
       = Inr (addLog (Received ''d02/telemetry'' (take 80 empty_object_payload)) initial)
   \<and> (\<exists>d'. on_message (sample_runtime [(empty_object_payload, JObj [])]) ''test''
              empty_object_payload initial = Inr d'
         \<and> reports_no_unknown initial d')"
proof -
  let ?R = "sample_runtime [(empty_object_payload, JObj [])]"
  have t: "telemetry_topic ?R ''d02/telemetry''"
    by (simp add: telemetry_topic_def handled_topic_def)
  have s: "startsWith empty_object_payload ''{''"
    by (simp add: empty_object_payload_def)
  have p: "JSON_parse ?R empty_object_payload = Inr (JObj [])"
    by (simp add: sample_runtime_def)
  have n: "is_stm32_json (JObj []) = Inr False" "is_legacy_json (JObj []) = Inr False"
    "is_simple_json (JObj []) = Inr False"
    by (simp_all add: is_stm32_json_def is_legacy_json_def is_simple_json_def js_defs)
  note T = unmatched_json_changes_nothing [OF s, of ?R "''d02/telemetry''" "[]" initial
      "''test''"]
  from T t p n
  have a: "on_message ?R ''d02/telemetry'' empty_object_payload initial
       = Inr (addLog (Received ''d02/telemetry'' (take 80 empty_object_payload)) initial)"
    by blast
  from T
  have b: "\<exists>d'. on_message ?R ''test'' empty_object_payload initial = Inr d'
         \<and> reports_no_unknown initial d'"
    by blast
  from s t p a b show ?thesis by blast
qed

subsection \<open>Zero readings in the compact formats\<close>

lemma int_or_prev_zero: "zero_or_absent c \<Longrightarrow> int_or_prev c prev = prev"
  by (simp add: zero_or_absent_def int_or_prev_def or_else_def)

lemma int_or_prev_stores_no_zero: "int_or_prev c prev = num 0 \<Longrightarrow> prev = num 0"
  by (cases "parseInt (or_zero c)") (auto simp add: int_or_prev_def or_else_def split: if_splits)

lemma compact_sensors_fields:
  "(field, capture) \<in> set compact_fields \<Longrightarrow>
   field (compact_sensors c prev) = int_or_prev (capture c) (field prev)"
  by (auto simp add: compact_fields_def compact_sensors_def)

lemma compact_field_cases:
  assumes "(field, capture) \<in> set compact_fields"
    and "s = prev \<or> s = compact_sensors c prev"
  shows "(zero_or_absent (capture c) \<longrightarrow> field s = field prev)
       \<and> (field s = num 0 \<longrightarrow> field prev = num 0)"
  using assms
  by (auto simp add: compact_sensors_fields int_or_prev_zero dest: int_or_prev_stores_no_zero)

lemma compact_branch_sensors:
  "sensors (stm32_simple p d) = sensors d
   \<or> sensors (stm32_simple p d) = compact_sensors (simple_captures p) (sensors d)"
  "sensors (stm32_ultra p d) = sensors d
   \<or> sensors (stm32_ultra p d) = compact_sensors (ultra_captures p) (sensors d)"
  "sensors (stm32_comprehensive p d) = sensors d
   \<or> sensors (stm32_comprehensive p d)
       = compact_sensors (comprehensive_captures p) (sensors d)"
  by (simp_all add: stm32_simple_def stm32_ultra_def stm32_comprehensive_def Let_def)

text \<open>
  C9: in the prefixed positional, the ultra-short and the comma-delimited format, a
  field whose text reads as zero is treated as a missing one, the stored value stays;
  so a zero never replaces a stored value that is not zero.
\<close>

theorem compact_zero_keeps_previous:
  assumes "(F, caps) \<in> {(PrefixedPositional, simple_captures), (UltraShort, ultra_captures),
                         (CommaKeyValue, comprehensive_captures)}"
  shows "\<forall>(field, capture) \<in> set compact_fields.
           (zero_or_absent (capture (caps p))
              \<longrightarrow> field (sensors (fst (decode_as R F p d))) = field (sensors d))
         \<and> (field (sensors (fst (decode_as R F p d))) = num 0
              \<longrightarrow> field (sensors d) = num 0)"
proof -
  have "sensors (fst (decode_as R F p d)) = sensors d
        \<or> sensors (fst (decode_as R F p d)) = compact_sensors (caps p) (sensors d)"
    using assms compact_branch_sensors [of p d] by auto
  then show ?thesis
    using compact_field_cases by blast
qed

theorem compact_zero_keeps_previous_witness:
  "first_match source_order zero_level_payload = Some CommaKeyValue
   \<and> c_waterLevel (comprehensive_captures zero_level_payload) = Some ''0''
   \<and> zero_or_absent (c_waterLevel (comprehensive_captures zero_level_payload))
   \<and> waterLevel (sensors initial) = num 10
   \<and> waterLevel (sensors (fst (decode_as (sample_runtime []) CommaKeyValue zero_level_payload initial))) = num 10"
proof -
  have f: "first_match source_order zero_level_payload = Some CommaKeyValue"
    by (simp add: first_match_def source_order_def zero_level_payload_def format_tests)
  have c: "c_waterLevel (comprehensive_captures zero_level_payload) = Some ''0''"
    by (simp add: comprehensive_captures_def zero_level_payload_def match_defs)
  have z: "zero_or_absent (c_waterLevel (comprehensive_captures zero_level_payload))"
    by (simp add: c zero_or_absent_def or_zero_def parseInt_def is_digit_def dec_value_def
        digit_val_def)
  have i: "waterLevel (sensors initial) = num 10"
    by (simp add: initial_def)
  have m: "(waterLevel, c_waterLevel) \<in> set compact_fields"
    by (simp add: compact_fields_def)
  from compact_zero_keeps_previous [of CommaKeyValue comprehensive_captures
      zero_level_payload "sample_runtime []" initial] m z i
  have "waterLevel (sensors (fst (decode_as (sample_runtime []) CommaKeyValue zero_level_payload initial)))
        = num 10"
    by auto
  with f c z i show ?thesis by blast
qed

subsection \<open>Broken payloads\<close>

text \<open>No exception leaves the handler; a payload whose JSON parse throws, and a payload
  that no format accepts, change nothing but the log.\<close>

lemma on_message_returns: "\<exists>d'. on_message R topic p d = Inr d'"
  by (simp add: on_message_def split: prod.splits option.splits)

lemma on_message_parse_failure:
  assumes "telemetry_topic R topic" and "startsWith p ''{''" and "JSON_parse R p = Inl e"
  shows "on_message R topic p d =
           Inr (addLog (RawPayload (take 100 p))
                  (addLog (FailedToParse e) (addLog (Received topic (take 80 p)) d)))"
  using assms
  by (simp add: on_message_def telemetry_topic_def try_block_def decode_payload_def Let_def)

lemma on_message_no_format:
  assumes "telemetry_topic R topic" and "first_match source_order p = None"
  shows "on_message R topic p d =
           Inr (addLog (UnknownDataFormat p) (addLog (Received topic (take 80 p)) d))"
  using assms
  by (simp add: on_message_def telemetry_topic_def try_block_def Let_def
      decode_payload_source_order decode_in_order_def)

text \<open>
  C6: a broken payload never corrupts the state held before; a field whose parse fails
  is left out and its previous value stays. The flat legacy shape builds a whole new
  record from the payload: with all fields but one missing, the stored pressure becomes
  \<^verbatim>\<open>undefined\<close>, the soil humidity and the water level \<^verbatim>\<open>NaN\<close>, and the pumps and valves
  \<^verbatim>\<open>undefined\<close>, where the simple shape and the text formats keep the previous value of
  a missing field.
\<close>

theorem truncated_legacy_overwrites:
  "JSON_parse (sample_runtime [(truncated_legacy_payload, truncated_legacy_value)])
     truncated_legacy_payload = Inr truncated_legacy_value
   \<and> pressure (sensors initial) = num 825
   \<and> soilHumidity (sensors initial) = num 70
   \<and> on_message (sample_runtime [(truncated_legacy_payload, truncated_legacy_value)])
        ''d02/telemetry'' truncated_legacy_payload initial =
       Inr (addLog LegacyJson
              ((addLog (Received ''d02/telemetry'' truncated_legacy_payload) initial)
                 \<lparr>sensors :=
                    \<lparr>pressure = Undefined, soilTemp = num 0, soilHumidity = JNum NaN,
                     waterLevel = JNum NaN, airTemp = num 25, airHumidity = Undefined,
                     ds_t = JArr [], soil = JArr [Undefined, Undefined, Undefined],
                     water = JArr [Undefined, Undefined]\<rparr>,
                  pumps := \<lparr>irrigation = Undefined, suction = Undefined\<rparr>,
                  valves := \<lparr>valve1 = Undefined, valve2 = Undefined, valve3 = Undefined\<rparr>,
                  dataSource := ''mqtt-json-legacy''\<rparr>))"
proof -
  have v: "legacy_json_values R truncated_legacy_value =
     Inr (\<lparr>pressure = Undefined, soilTemp = num 0, soilHumidity = JNum NaN,
           waterLevel = JNum NaN, airTemp = num 25, airHumidity = Undefined,
           ds_t = JArr [], soil = JArr [Undefined, Undefined, Undefined],
           water = JArr [Undefined, Undefined]\<rparr>,
          \<lparr>irrigation = Undefined, suction = Undefined\<rparr>,
          \<lparr>valve1 = Undefined, valve2 = Undefined, valve3 = Undefined\<rparr>)" for R
    by (simp add: legacy_json_values_def truncated_legacy_value_def js_defs Let_def)
  have sh: "is_stm32_json truncated_legacy_value = Inr False"
    "is_legacy_json truncated_legacy_value = Inr True"
    by (simp_all add: is_stm32_json_def is_legacy_json_def truncated_legacy_value_def js_defs)
  have st: "startsWith truncated_legacy_payload ''{''"
    by (simp add: truncated_legacy_payload_def)
  have tk: "take 80 truncated_legacy_payload = truncated_legacy_payload"
    by (simp add: truncated_legacy_payload_def)
  show ?thesis
    by (simp add: sample_runtime_def initial_def on_message_def handled_topic_def
        try_block_def decode_payload_def st tk json_payload_def sh legacy_json_def v)
qed

end
